theory Spec2Isabelle
  imports Complex_Main
begin

section \<open>JavaScript values used by the conversion pipeline\<close>

text \<open>
  Strings are sequences of 8-bit code units (Latin-1); the upstream payloads are JSON.
  An optional property (absent, \<^verbatim>\<open>undefined\<close> or \<^verbatim>\<open>null\<close>) of a typed record is an
  \<open>option\<close>. Identifiers arrive as JSON numbers or strings and are kept loosely typed.
\<close>

datatype jsval = JUndefined | JNull | JNum int | JStr string

text \<open>
  A JavaScript number as far as the pipeline computes with it: \<^verbatim>\<open>NaN\<close>, an infinity
  (\<open>True\<close> is the negative one) or a finite value. A finite value is carried as the exact
  rational it denotes; the sign of zero is not distinguished.
\<close>

datatype jsnumber = NaN | Infinity bool | Fin rat

definition digit_char :: "nat \<Rightarrow> char" where
  "digit_char d = ''0123456789'' ! d"

fun dec_nat :: "nat \<Rightarrow> string" where
  "dec_nat n = (if n < 10 then [digit_char n] else dec_nat (n div 10) @ [digit_char (n mod 10)])"

declare dec_nat.simps [simp del]

text \<open>
  \<^verbatim>\<open>Number.prototype.toString()\<close> on an integer value. The rendering is exact for every
  integer; JavaScript's agrees with it up to \<open>2^53\<close> and beyond that prints the shortest
  digits that read back to the same double, in exponent form from \<open>10^21\<close>.
\<close>

definition num_toString :: "int \<Rightarrow> string" where
  "num_toString i = (if i < 0 then CHR ''-'' # dec_nat (nat (- i)) else dec_nat (nat i))"

text \<open>Truthiness of a loosely typed value and of an optional string.\<close>

fun js_truthy :: "jsval \<Rightarrow> bool" where
  "js_truthy JUndefined = False"
| "js_truthy JNull = False"
| "js_truthy (JNum n) = (n \<noteq> 0)"
| "js_truthy (JStr s) = (s \<noteq> [])"

fun truthy :: "string option \<Rightarrow> bool" where
  "truthy None = False"
| "truthy (Some s) = (s \<noteq> [])"

text \<open>\<^verbatim>\<open>v?.toString()\<close>: \<^verbatim>\<open>undefined\<close> on a nullish value.\<close>

fun opt_toString :: "jsval \<Rightarrow> string option" where
  "opt_toString JUndefined = None"
| "opt_toString JNull = None"
| "opt_toString (JNum n) = Some (num_toString n)"
| "opt_toString (JStr s) = Some s"

text \<open>\<^verbatim>\<open>v.toString()\<close> after a truthiness test (never reached on a nullish value).\<close>

fun js_toString :: "jsval \<Rightarrow> string" where
  "js_toString (JNum n) = num_toString n"
| "js_toString (JStr s) = s"
| "js_toString JUndefined = []"
| "js_toString JNull = []"

text \<open>A value inside a template literal \<^verbatim>\<open>`${v}`\<close>.\<close>

fun template :: "jsval \<Rightarrow> string" where
  "template JUndefined = ''undefined''"
| "template JNull = ''null''"
| "template (JNum n) = num_toString n"
| "template (JStr s) = s"

text \<open>\<^verbatim>\<open>a || b\<close> on optional strings.\<close>

definition or_else :: "string option \<Rightarrow> string option \<Rightarrow> string option" where
  "or_else a b = (if truthy a then a else b)"

text \<open>\<^verbatim>\<open>a || 'lit'\<close>: the result is always a string.\<close>

definition or_lit :: "string option \<Rightarrow> string \<Rightarrow> string" where
  "or_lit a d = (case a of None \<Rightarrow> d | Some s \<Rightarrow> if s = [] then d else s)"

text \<open>\<^verbatim>\<open>a || undefined\<close>.\<close>

definition or_undefined :: "string option \<Rightarrow> string option" where
  "or_undefined a = (if truthy a then a else None)"

subsection \<open>String built-ins\<close>

definition is_ws :: "char \<Rightarrow> bool" where
  "is_ws c = (of_char c \<in> {9, 10, 11, 12, 13, 32, 160 :: nat})"

definition trim :: "string \<Rightarrow> string" where
  "trim s = rev (dropWhile is_ws (rev (dropWhile is_ws s)))"

definition lower_char :: "char \<Rightarrow> char" where
  "lower_char c =
     (let n = (of_char c :: nat)
      in if (65 \<le> n \<and> n \<le> 90) \<or> (192 \<le> n \<and> n \<le> 222 \<and> n \<noteq> 215) then char_of (n + 32) else c)"

definition toLowerCase :: "string \<Rightarrow> string" where
  "toLowerCase s = map lower_char s"

subsection \<open>parseFloat\<close>

definition is_digit :: "char \<Rightarrow> bool" where
  "is_digit c = (48 \<le> (of_char c :: nat) \<and> (of_char c :: nat) \<le> 57)"

definition digits_value :: "string \<Rightarrow> nat" where
  "digits_value ds = foldl (\<lambda>acc c. 10 * acc + (of_char c - 48)) 0 ds"

text \<open>The exponent part of a decimal literal, 0 when the text has none.\<close>

definition exponent_part :: "string \<Rightarrow> int" where
  "exponent_part r =
     (case r of
        [] \<Rightarrow> 0
      | c # r1 \<Rightarrow>
          if c = CHR ''e'' \<or> c = CHR ''E'' then
            (case r1 of
               [] \<Rightarrow> 0
             | s # r2 \<Rightarrow>
                 if s = CHR ''-'' then
                   (if takeWhile is_digit r2 = [] then 0 else - int (digits_value (takeWhile is_digit r2)))
                 else if s = CHR ''+'' then
                   (if takeWhile is_digit r2 = [] then 0 else int (digits_value (takeWhile is_digit r2)))
                 else int (digits_value (takeWhile is_digit r1)))
          else 0)"

definition pow10 :: "int \<Rightarrow> rat" where
  "pow10 e = (if 0 \<le> e then 10 ^ nat e else 1 / 10 ^ nat (- e))"

text \<open>
  \<^verbatim>\<open>parseFloat\<close>: leading white space is skipped, the longest prefix that is a decimal
  literal is read, anything after it is ignored, and the result is \<^verbatim>\<open>NaN\<close> when no such
  prefix exists. The value read is the exact rational the literal denotes: the rounding to
  a double, and the overflow of a literal beyond the range of doubles to an infinity, are
  not modelled.
\<close>

definition parseFloat :: "string \<Rightarrow> jsnumber" where
  "parseFloat s =
     (let t = dropWhile is_ws s;
          neg = (case t of [] \<Rightarrow> False | c # _ \<Rightarrow> c = CHR ''-'');
          u = (case t of [] \<Rightarrow> [] | c # r \<Rightarrow> if c = CHR ''-'' \<or> c = CHR ''+'' then r else t)
      in if take 8 u = ''Infinity'' then Infinity neg
         else
           let ip = takeWhile is_digit u;
               r1 = dropWhile is_digit u;
               has_dot = (case r1 of [] \<Rightarrow> False | c # _ \<Rightarrow> c = CHR ''.'');
               fp = (if has_dot then takeWhile is_digit (tl r1) else []);
               r2 = (if has_dot then dropWhile is_digit (tl r1) else r1)
           in if ip = [] \<and> fp = [] then NaN
              else
                let m = of_nat (digits_value ip) + of_nat (digits_value fp) / 10 ^ length fp;
                    v = m * pow10 (exponent_part r2)
                in Fin (if neg then - v else v))"

text \<open>\<^verbatim>\<open>Math.floor(x / 1000)\<close>.\<close>

fun floor_div_1000 :: "jsnumber \<Rightarrow> jsnumber" where
  "floor_div_1000 NaN = NaN"
| "floor_div_1000 (Infinity b) = Infinity b"
| "floor_div_1000 (Fin r) = Fin (of_int \<lfloor>r / 1000\<rfloor>)"

text \<open>\<^verbatim>\<open>price * quantity\<close> with an integer quantity.\<close>

fun times_int :: "jsnumber \<Rightarrow> int \<Rightarrow> jsnumber" where
  "times_int NaN q = NaN"
| "times_int (Infinity b) q = (if q = 0 then NaN else Infinity (b \<noteq> (q < 0)))"
| "times_int (Fin r) q = Fin (r * of_int q)"

section \<open>Upstream trigger payloads\<close>

text \<open>Only the properties the pipeline reads are modelled; every other one is ignored.\<close>

record address =
  addr_city :: "string option"
  addr_province :: "string option"
  addr_zip :: "string option"
  addr_country :: "string option"

record customer =
  c_id :: jsval
  c_email :: "string option"
  c_phone :: "string option"
  c_first_name :: "string option"
  c_last_name :: "string option"
  c_default_address :: "address option"
  c_created_at :: "string option"

record line_item =
  li_id :: jsval
  li_product_id :: jsval
  li_variant_id :: jsval
  li_quantity :: "int option"
  li_price :: "string option"

record client_details =
  user_agent :: "string option"

record order =
  o_id :: jsval
  o_name :: "string option"
  o_created_at :: "string option"
  o_total_price :: "string option"
  o_currency :: "string option"
  o_landing_site_ref :: "string option"
  o_line_items :: "line_item list option"
  o_customer :: "customer option"
  o_browser_ip :: "string option"
  o_client_details :: "client_details option"

record checkout =
  ch_id :: jsval
  ch_total_price :: "string option"
  ch_currency :: "string option"
  ch_landing_site_ref :: "string option"
  ch_line_items :: "line_item list option"
  ch_customer :: "customer option"
  ch_browser_ip :: "string option"
  ch_client_details :: "client_details option"

section \<open>Conversion events\<close>

record user_data =
  em :: "string list option"
  ph :: "string list option"
  fn :: "string list option"
  ln :: "string list option"
  ct :: "string list option"
  st :: "string list option"
  zp :: "string list option"
  country :: "string list option"
  external_id :: "string list option"
  client_ip_address :: "string option"
  client_user_agent :: "string option"
  fbc :: "string option"
  fbp :: "string option"

record content =
  ct_id :: string
  ct_quantity :: int
  item_price :: jsnumber

record custom_data =
  cd_value :: "jsnumber option"
  currency :: "string option"
  content_type :: "string option"
  content_ids :: "string list option"
  content_name :: "string option"
  content_category :: "string option"
  num_items :: "int option"
  order_id :: "string option"
  contents :: "content list option"

record capi_event =
  event_name :: string
  event_time :: jsnumber
  action_source :: string
  event_source_url :: "string option"
  user_data :: user_data
  custom_data :: "custom_data option"
  event_id :: "string option"

record capi_response =
  events_received :: nat
  messages :: "string list"
  fbtrace_id :: string

section \<open>The outside world\<close>

record capi_payload =
  data :: "capi_event list"
  access_token :: string
  test_event_code :: "string option"

text \<open>A call of \<^verbatim>\<open>axios.post\<close>; the timeout is in milliseconds.\<close>

record request =
  url :: string
  body :: capi_payload
  headers :: "(string \<times> string) list"
  timeout :: nat

text \<open>
  What \<^verbatim>\<open>axios.post\<close> rejects with: the HTTP status when a response came back (none on a
  timeout), \<^verbatim>\<open>error.response?.data?.error?.message\<close> and \<^verbatim>\<open>error.message\<close>.
\<close>

record axios_error =
  status :: "nat option"
  response_error_message :: "string option"
  message :: string

datatype axios_result = Resolved capi_response | Rejected axios_error

record meta =
  pixelId :: string
  accessToken :: string

text \<open>
  The collaborators the code calls but does not define: the digest, the date parser
  (\<open>None\<close> is an invalid date), the successive readings of the clock in milliseconds,
  \<^verbatim>\<open>Math.random().toString(36)\<close>, the ingestion endpoint behind \<^verbatim>\<open>axios.post\<close>, and the
  connection store behind \<^verbatim>\<open>prisma.meta.findUnique\<close> (\<open>Inl\<close> when the query throws).
\<close>

record env =
  sha256hex :: "string \<Rightarrow> string"
  Date_parse :: "string \<Rightarrow> int option"
  clock :: "nat \<Rightarrow> int"
  random36 :: string
  axios_post :: "request \<Rightarrow> axios_result"
  findUnique :: "string \<Rightarrow> string + meta option"

text \<open>The state a delivery changes: clock readings taken and transport calls issued.\<close>

record world =
  ticks :: nat
  sent :: "request list"

definition Date_now :: "env \<Rightarrow> world \<Rightarrow> int \<times> world" where
  "Date_now e w = (clock e (ticks w), w\<lparr>ticks := Suc (ticks w)\<rparr>)"

text \<open>\<^verbatim>\<open>new Date(s).getTime()\<close>.\<close>

definition getTime :: "env \<Rightarrow> string \<Rightarrow> jsnumber" where
  "getTime e s = (case Date_parse e s of None \<Rightarrow> NaN | Some ms \<Rightarrow> Fin (of_int ms))"

section \<open>CAPIService\<close>

record CAPIService =
  svc_pixelId :: string
  svc_accessToken :: string
  svc_testEventCode :: "string option"

text \<open>The constructor; the routes never pass a test-mode tag.\<close>

definition new_CAPIService :: "string \<Rightarrow> string \<Rightarrow> string option \<Rightarrow> CAPIService" where
  "new_CAPIService pid tok code = \<lparr>svc_pixelId = pid, svc_accessToken = tok, svc_testEventCode = code\<rparr>"

definition hashPII :: "env \<Rightarrow> string \<Rightarrow> string" where
  "hashPII e d = sha256hex e (trim (toLowerCase d))"

text \<open>The \<^verbatim>\<open>url\<close>, the \<^verbatim>\<open>payload\<close> and the configuration handed to \<^verbatim>\<open>axios.post\<close>.\<close>

definition capi_request :: "CAPIService \<Rightarrow> capi_event list \<Rightarrow> request" where
  "capi_request svc events =
     \<lparr>url = ''https://graph.facebook.com/v18.0/'' @ svc_pixelId svc @ ''/events'',
      body = \<lparr>data = events,
              access_token = svc_accessToken svc,
              test_event_code = or_undefined (svc_testEventCode svc)\<rparr>,
      headers = [(''Content-Type'', ''application/json'')],
      timeout = 10000\<rparr>"

definition sendEvents :: "env \<Rightarrow> CAPIService \<Rightarrow> capi_event list \<Rightarrow> world \<Rightarrow> (string + capi_response) \<times> world" where
  "sendEvents e svc events w =
     (let req = capi_request svc events;
          w' = w\<lparr>sent := sent w @ [req]\<rparr>
      in case axios_post e req of
           Resolved r \<Rightarrow> (Inr r, w')
         | Rejected err \<Rightarrow>
             (Inl (''CAPI request failed: '' @ or_lit (response_error_message err) (message err)), w'))"

text \<open>\<^verbatim>\<open>if (v) userData.f = [this.hashPII(v)]\<close> for a string property.\<close>

definition hashed :: "env \<Rightarrow> string option \<Rightarrow> string list option" where
  "hashed e v = (case v of None \<Rightarrow> None | Some s \<Rightarrow> if s = [] then None else Some [hashPII e s])"

definition hashed_id :: "env \<Rightarrow> jsval \<Rightarrow> string list option" where
  "hashed_id e v = (if js_truthy v then Some [hashPII e (js_toString v)] else None)"

definition createUserData ::
  "env \<Rightarrow> customer option \<Rightarrow> string option \<Rightarrow> string option \<Rightarrow> string option \<Rightarrow> string option \<Rightarrow> user_data" where
  "createUserData e cust clientIp userAgent fbc' fbp' =
     \<lparr>em = hashed e (Option.bind cust c_email),
      ph = hashed e (Option.bind cust c_phone),
      fn = hashed e (Option.bind cust c_first_name),
      ln = hashed e (Option.bind cust c_last_name),
      ct = hashed e (Option.bind (Option.bind cust c_default_address) addr_city),
      st = hashed e (Option.bind (Option.bind cust c_default_address) addr_province),
      zp = hashed e (Option.bind (Option.bind cust c_default_address) addr_zip),
      country = hashed e (Option.bind (Option.bind cust c_default_address) addr_country),
      external_id = (case cust of None \<Rightarrow> None | Some c \<Rightarrow> hashed_id e (c_id c)),
      client_ip_address = or_undefined clientIp,
      client_user_agent = or_undefined userAgent,
      fbc = or_undefined fbc',
      fbp = or_undefined fbp'\<rparr>"

record client_data =
  cl_ip :: "string option"
  cl_userAgent :: "string option"
  cl_fbc :: "string option"
  cl_fbp :: "string option"
  cl_sourceUrl :: "string option"

text \<open>\<^verbatim>\<open>created_at ? new Date(created_at).getTime() : Date.now()\<close>; the clock is read only in the second branch.\<close>

definition created_or_now :: "env \<Rightarrow> string option \<Rightarrow> world \<Rightarrow> jsnumber \<times> world" where
  "created_or_now e created w =
     (case created of
        None \<Rightarrow> (let (now, w') = Date_now e w in (Fin (of_int now), w'))
      | Some s \<Rightarrow>
          if s = [] then (let (now, w') = Date_now e w in (Fin (of_int now), w'))
          else (getTime e s, w))"

text \<open>\<^verbatim>\<open>Math.floor(Date.now() / 1000)\<close>.\<close>

definition now_seconds :: "env \<Rightarrow> world \<Rightarrow> jsnumber \<times> world" where
  "now_seconds e w = (let (now, w') = Date_now e w in (floor_div_1000 (Fin (of_int now)), w'))"

text \<open>\<^verbatim>\<open>eventId || `...${Date.now()}...`\<close>: the default is built, and the clock read, only for a falsy \<^verbatim>\<open>eventId\<close>.\<close>

definition eventId_or :: "env \<Rightarrow> string option \<Rightarrow> (string \<Rightarrow> string) \<Rightarrow> world \<Rightarrow> string \<times> world" where
  "eventId_or e eventId mk w =
     (if truthy eventId then (or_lit eventId [], w)
      else (let (now, w') = Date_now e w in (mk (num_toString now), w')))"

text \<open>\<^verbatim>\<open>item.quantity || 1\<close>.\<close>

definition quantity_or_1 :: "int option \<Rightarrow> int" where
  "quantity_or_1 q = (case q of None \<Rightarrow> 1 | Some n \<Rightarrow> if n = 0 then 1 else n)"

definition purchase_content :: "line_item \<Rightarrow> content" where
  "purchase_content item =
     \<lparr>ct_id = or_lit (or_else (opt_toString (li_product_id item)) (opt_toString (li_variant_id item))) [],
      ct_quantity = quantity_or_1 (li_quantity item),
      item_price = parseFloat (or_lit (li_price item) ''0'')\<rparr>"

definition purchase_contents :: "order \<Rightarrow> content list" where
  "purchase_contents ord = (case o_line_items ord of None \<Rightarrow> [] | Some items \<Rightarrow> map purchase_content items)"

definition client_user_data :: "env \<Rightarrow> customer option \<Rightarrow> client_data option \<Rightarrow> user_data" where
  "client_user_data e cust cd =
     createUserData e cust (Option.bind cd cl_ip) (Option.bind cd cl_userAgent)
       (Option.bind cd cl_fbc) (Option.bind cd cl_fbp)"

definition trackPurchase_event ::
  "env \<Rightarrow> order \<Rightarrow> customer option \<Rightarrow> string option \<Rightarrow> client_data option \<Rightarrow> world \<Rightarrow> capi_event \<times> world" where
  "trackPurchase_event e ord cust eventId cd w =
     (let userData = client_user_data e cust cd;
          cs = purchase_contents ord;
          (t, w1) = created_or_now e (o_created_at ord) w;
          (eid, w2) = eventId_or e eventId (\<lambda>now. template (o_id ord) @ ''_purchase_'' @ now) w1
      in (\<lparr>event_name = ''Purchase'',
           event_time = floor_div_1000 t,
           action_source = ''website'',
           event_source_url = or_undefined (o_landing_site_ref ord),
           user_data = userData,
           custom_data = Some
             \<lparr>cd_value = Some (parseFloat (or_lit (o_total_price ord) ''0'')),
              currency = Some (or_lit (o_currency ord) ''USD''),
              content_type = Some ''product'',
              content_ids = Some (map ct_id cs),
              content_name = None,
              content_category = None,
              num_items = Some (foldl (\<lambda>sum item. sum + ct_quantity item) 0 cs),
              order_id = Some (or_lit (or_else (opt_toString (o_id ord)) (o_name ord)) []),
              contents = Some cs\<rparr>,
           event_id = Some eid\<rparr>, w2))"

definition trackPurchase ::
  "env \<Rightarrow> CAPIService \<Rightarrow> order \<Rightarrow> customer option \<Rightarrow> string option \<Rightarrow> client_data option \<Rightarrow> world
     \<Rightarrow> (string + capi_response) \<times> world" where
  "trackPurchase e svc ord cust eventId cd w =
     (let (ev, w') = trackPurchase_event e ord cust eventId cd w in sendEvents e svc [ev] w')"

definition trackAddToCart_event ::
  "env \<Rightarrow> string \<Rightarrow> string \<Rightarrow> int \<Rightarrow> jsnumber \<Rightarrow> string \<Rightarrow> customer option \<Rightarrow> string option
     \<Rightarrow> client_data option \<Rightarrow> world \<Rightarrow> capi_event \<times> world" where
  "trackAddToCart_event e productId variantId qty price cur cust eventId cd w =
     (let userData = client_user_data e cust cd;
          (t, w1) = now_seconds e w;
          cid = (if variantId = [] then productId else variantId);
          (eid, w2) = eventId_or e eventId (\<lambda>now. productId @ ''_'' @ variantId @ ''_addtocart_'' @ now) w1
      in (\<lparr>event_name = ''AddToCart'',
           event_time = t,
           action_source = ''website'',
           event_source_url = Option.bind cd cl_sourceUrl,
           user_data = userData,
           custom_data = Some
             \<lparr>cd_value = Some (times_int price qty),
              currency = Some cur,
              content_type = Some ''product'',
              content_ids = Some [cid],
              content_name = None,
              content_category = None,
              num_items = Some qty,
              order_id = None,
              contents = Some [\<lparr>ct_id = cid, ct_quantity = qty, item_price = price\<rparr>]\<rparr>,
           event_id = Some eid\<rparr>, w2))"

definition trackAddToCart ::
  "env \<Rightarrow> CAPIService \<Rightarrow> string \<Rightarrow> string \<Rightarrow> int \<Rightarrow> jsnumber \<Rightarrow> string \<Rightarrow> customer option \<Rightarrow> string option
     \<Rightarrow> client_data option \<Rightarrow> world \<Rightarrow> (string + capi_response) \<times> world" where
  "trackAddToCart e svc productId variantId qty price cur cust eventId cd w =
     (let (ev, w') = trackAddToCart_event e productId variantId qty price cur cust eventId cd w
      in sendEvents e svc [ev] w')"

definition trackPageView_event ::
  "env \<Rightarrow> string \<Rightarrow> customer option \<Rightarrow> string option \<Rightarrow> client_data option \<Rightarrow> world \<Rightarrow> capi_event \<times> world" where
  "trackPageView_event e page cust eventId cd w =
     (let userData = client_user_data e cust cd;
          (t, w1) = now_seconds e w;
          (eid, w2) = eventId_or e eventId (\<lambda>now. ''pageview_'' @ now @ ''_'' @ drop 7 (random36 e)) w1
      in (\<lparr>event_name = ''PageView'',
           event_time = t,
           action_source = ''website'',
           event_source_url = Some page,
           user_data = userData,
           custom_data = None,
           event_id = Some eid\<rparr>, w2))"

definition trackPageView ::
  "env \<Rightarrow> CAPIService \<Rightarrow> string \<Rightarrow> customer option \<Rightarrow> string option \<Rightarrow> client_data option \<Rightarrow> world
     \<Rightarrow> (string + capi_response) \<times> world" where
  "trackPageView e svc page cust eventId cd w =
     (let (ev, w') = trackPageView_event e page cust eventId cd w in sendEvents e svc [ev] w')"

definition trackInitiateCheckout_event ::
  "env \<Rightarrow> jsnumber \<Rightarrow> string \<Rightarrow> string list \<Rightarrow> int \<Rightarrow> customer option \<Rightarrow> string option
     \<Rightarrow> client_data option \<Rightarrow> world \<Rightarrow> capi_event \<times> world" where
  "trackInitiateCheckout_event e val cur contentIds numItems cust eventId cd w =
     (let userData = client_user_data e cust cd;
          (t, w1) = now_seconds e w;
          (eid, w2) = eventId_or e eventId (\<lambda>now. ''initiate_checkout_'' @ now) w1
      in (\<lparr>event_name = ''InitiateCheckout'',
           event_time = t,
           action_source = ''website'',
           event_source_url = Option.bind cd cl_sourceUrl,
           user_data = userData,
           custom_data = Some
             \<lparr>cd_value = Some val,
              currency = Some cur,
              content_type = Some ''product'',
              content_ids = Some contentIds,
              content_name = None,
              content_category = None,
              num_items = Some numItems,
              order_id = None,
              contents = None\<rparr>,
           event_id = Some eid\<rparr>, w2))"

definition trackInitiateCheckout ::
  "env \<Rightarrow> CAPIService \<Rightarrow> jsnumber \<Rightarrow> string \<Rightarrow> string list \<Rightarrow> int \<Rightarrow> customer option \<Rightarrow> string option
     \<Rightarrow> client_data option \<Rightarrow> world \<Rightarrow> (string + capi_response) \<times> world" where
  "trackInitiateCheckout e svc val cur contentIds numItems cust eventId cd w =
     (let (ev, w') = trackInitiateCheckout_event e val cur contentIds numItems cust eventId cd w
      in sendEvents e svc [ev] w')"

definition trackViewContent_event ::
  "env \<Rightarrow> string \<Rightarrow> string \<Rightarrow> string \<Rightarrow> jsnumber \<Rightarrow> string \<Rightarrow> customer option \<Rightarrow> string option
     \<Rightarrow> client_data option \<Rightarrow> world \<Rightarrow> capi_event \<times> world" where
  "trackViewContent_event e productId contentName contentCategory val cur cust eventId cd w =
     (let userData = client_user_data e cust cd;
          (t, w1) = now_seconds e w;
          (eid, w2) = eventId_or e eventId (\<lambda>now. productId @ ''_viewcontent_'' @ now) w1
      in (\<lparr>event_name = ''ViewContent'',
           event_time = t,
           action_source = ''website'',
           event_source_url = Option.bind cd cl_sourceUrl,
           user_data = userData,
           custom_data = Some
             \<lparr>cd_value = Some val,
              currency = Some cur,
              content_type = Some ''product'',
              content_ids = Some [productId],
              content_name = Some contentName,
              content_category = Some contentCategory,
              num_items = None,
              order_id = None,
              contents = None\<rparr>,
           event_id = Some eid\<rparr>, w2))"

definition trackViewContent ::
  "env \<Rightarrow> CAPIService \<Rightarrow> string \<Rightarrow> string \<Rightarrow> string \<Rightarrow> jsnumber \<Rightarrow> string \<Rightarrow> customer option \<Rightarrow> string option
     \<Rightarrow> client_data option \<Rightarrow> world \<Rightarrow> (string + capi_response) \<times> world" where
  "trackViewContent e svc productId contentName contentCategory val cur cust eventId cd w =
     (let (ev, w') = trackViewContent_event e productId contentName contentCategory val cur cust eventId cd w
      in sendEvents e svc [ev] w')"

section \<open>Webhook routes\<close>

record session =
  session_id :: string

text \<open>What \<^verbatim>\<open>authenticate.webhook(request)\<close> resolves to.\<close>

record 'p webhook =
  shop :: string
  session :: "session option"
  topic :: string
  payload :: "'p option"

record response =
  resp_status :: nat
  resp_body :: string

text \<open>\<^verbatim>\<open>new Response()\<close>: status 200 and no body.\<close>

definition new_Response :: response where
  "new_Response = \<lparr>resp_status = 200, resp_body = []\<rparr>"

text \<open>
  The body of a route's \<^verbatim>\<open>try\<close> block ends in one of three ways: it throws (\<open>Inl\<close>), it
  returns a response early (\<open>Inr (Some r)\<close>) or it runs to its end (\<open>Inr None\<close>).
  \<open>finish\<close> is the \<^verbatim>\<open>catch\<close> clause, which only logs, followed by the final
  \<^verbatim>\<open>return new Response()\<close>.
\<close>

definition finish :: "(string + response option) \<times> world \<Rightarrow> (string + response) \<times> world" where
  "finish rw =
     (case fst rw of
        Inl err \<Rightarrow> (Inr new_Response, snd rw)
      | Inr (Some r) \<Rightarrow> (Inr r, snd rw)
      | Inr None \<Rightarrow> (Inr new_Response, snd rw))"

text \<open>\<^verbatim>\<open>if (!metaConnection || !metaConnection.pixelId)\<close>.\<close>

definition no_connection :: "meta option \<Rightarrow> bool" where
  "no_connection mc = (case mc of None \<Rightarrow> True | Some m \<Rightarrow> pixelId m = [])"

subsection \<open>orders/create\<close>

definition order_eventId :: "jsval \<Rightarrow> int \<Rightarrow> string" where
  "order_eventId oid now = ''shopify_order_'' @ template oid @ ''_'' @ num_toString now"

definition orders_clientData :: "order \<Rightarrow> client_data" where
  "orders_clientData ord =
     \<lparr>cl_ip = or_undefined (o_browser_ip ord),
      cl_userAgent = or_undefined (Option.bind (o_client_details ord) user_agent),
      cl_fbc = None, cl_fbp = None, cl_sourceUrl = None\<rparr>"

definition orders_try :: "env \<Rightarrow> session \<Rightarrow> order option \<Rightarrow> world \<Rightarrow> (string + response option) \<times> world" where
  "orders_try e s pl w =
     (case findUnique e (session_id s) of
        Inl err \<Rightarrow> (Inl err, w)
      | Inr metaConnection \<Rightarrow>
          if no_connection metaConnection then (Inr (Some new_Response), w)
          else
            (case pl of
               None \<Rightarrow> (Inr (Some new_Response), w)
             | Some ord \<Rightarrow>
                 let capiService = new_CAPIService (pixelId (the metaConnection)) (accessToken (the metaConnection)) None;
                     cust = o_customer ord;
                     clientData = orders_clientData ord;
                     (now, w1) = Date_now e w;
                     eventId = order_eventId (o_id ord) now;
                     (r, w2) = trackPurchase e capiService ord cust (Some eventId) (Some clientData) w1
                 in (case r of Inl err \<Rightarrow> (Inl err, w2) | Inr capiResponse \<Rightarrow> (Inr None, w2))))"

definition action_orders :: "env \<Rightarrow> string + order webhook \<Rightarrow> world \<Rightarrow> (string + response) \<times> world" where
  "action_orders e auth w =
     (case auth of
        Inl err \<Rightarrow> (Inl err, w)
      | Inr ctx \<Rightarrow>
          (case session ctx of
             None \<Rightarrow> (Inr new_Response, w)
           | Some s \<Rightarrow> finish (orders_try e s (payload ctx) w)))"

subsection \<open>checkouts/create\<close>

definition checkout_eventId :: "jsval \<Rightarrow> int \<Rightarrow> string" where
  "checkout_eventId cid now = ''shopify_checkout_'' @ template cid @ ''_'' @ num_toString now"

definition checkout_content_id :: "line_item \<Rightarrow> string option" where
  "checkout_content_id item =
     or_else (or_else (opt_toString (li_variant_id item)) (opt_toString (li_product_id item)))
       (opt_toString (li_id item))"

definition checkout_contentIds :: "line_item list \<Rightarrow> string list" where
  "checkout_contentIds items = map the (filter truthy (map checkout_content_id items))"

definition checkout_numItems :: "line_item list \<Rightarrow> int" where
  "checkout_numItems items = foldl (\<lambda>sum item. sum + quantity_or_1 (li_quantity item)) 0 items"

text \<open>\<^verbatim>\<open>if (!checkout || !checkout.line_items || checkout.line_items.length === 0)\<close>.\<close>

definition no_valid_checkout :: "checkout option \<Rightarrow> bool" where
  "no_valid_checkout pl =
     (case pl of
        None \<Rightarrow> True
      | Some c \<Rightarrow> (case ch_line_items c of None \<Rightarrow> True | Some items \<Rightarrow> length items = 0))"

definition checkouts_clientData :: "checkout \<Rightarrow> client_data" where
  "checkouts_clientData c =
     \<lparr>cl_ip = or_undefined (ch_browser_ip c),
      cl_userAgent = or_undefined (Option.bind (ch_client_details c) user_agent),
      cl_fbc = None, cl_fbp = None,
      cl_sourceUrl = or_undefined (ch_landing_site_ref c)\<rparr>"

definition checkouts_try :: "env \<Rightarrow> session \<Rightarrow> checkout option \<Rightarrow> world \<Rightarrow> (string + response option) \<times> world" where
  "checkouts_try e s pl w =
     (case findUnique e (session_id s) of
        Inl err \<Rightarrow> (Inl err, w)
      | Inr metaConnection \<Rightarrow>
          if no_connection metaConnection then (Inr (Some new_Response), w)
          else if no_valid_checkout pl then (Inr (Some new_Response), w)
          else
            (let c = the pl;
                 items = the (ch_line_items c);
                 capiService = new_CAPIService (pixelId (the metaConnection)) (accessToken (the metaConnection)) None;
                 cust = ch_customer c;
                 contentIds = checkout_contentIds items;
                 numItems = checkout_numItems items;
                 clientData = checkouts_clientData c;
                 (now, w1) = Date_now e w;
                 eventId = checkout_eventId (ch_id c) now;
                 (r, w2) = trackInitiateCheckout e capiService
                             (parseFloat (or_lit (ch_total_price c) ''0''))
                             (or_lit (ch_currency c) ''USD'')
                             contentIds numItems cust (Some eventId) (Some clientData) w1
             in (case r of Inl err \<Rightarrow> (Inl err, w2) | Inr capiResponse \<Rightarrow> (Inr None, w2))))"

definition action_checkouts :: "env \<Rightarrow> string + checkout webhook \<Rightarrow> world \<Rightarrow> (string + response) \<times> world" where
  "action_checkouts e auth w =
     (case auth of
        Inl err \<Rightarrow> (Inl err, w)
      | Inr ctx \<Rightarrow>
          (case session ctx of
             None \<Rightarrow> (Inr new_Response, w)
           | Some s \<Rightarrow> finish (checkouts_try e s (payload ctx) w)))"

subsection \<open>customers/create\<close>

definition customer_eventId :: "jsval \<Rightarrow> int \<Rightarrow> string" where
  "customer_eventId cid now = ''shopify_customer_'' @ template cid @ ''_signup_'' @ num_toString now"

text \<open>
  The route's own \<^verbatim>\<open>hashPII\<close> helper has the body of the service's method and is the same
  function here. A property written \<^verbatim>\<open>cond ? [hash] : undefined\<close> is not serialised when it
  is \<^verbatim>\<open>undefined\<close>.
\<close>

definition registration_event :: "env \<Rightarrow> customer \<Rightarrow> string \<Rightarrow> world \<Rightarrow> capi_event \<times> world" where
  "registration_event e c eventId w =
     (let (t, w1) = created_or_now e (c_created_at c) w
      in (\<lparr>event_name = ''CompleteRegistration'',
           event_time = floor_div_1000 t,
           action_source = ''website'',
           event_source_url = None,
           user_data =
             \<lparr>em = hashed e (c_email c),
              ph = hashed e (c_phone c),
              fn = hashed e (c_first_name c),
              ln = hashed e (c_last_name c),
              ct = hashed e (Option.bind (c_default_address c) addr_city),
              st = hashed e (Option.bind (c_default_address c) addr_province),
              zp = hashed e (Option.bind (c_default_address c) addr_zip),
              country = hashed e (Option.bind (c_default_address c) addr_country),
              external_id = hashed_id e (c_id c),
              client_ip_address = None,
              client_user_agent = None,
              fbc = None,
              fbp = None\<rparr>,
           custom_data = Some
             \<lparr>cd_value = None, currency = None, content_type = Some ''registration'',
              content_ids = None, content_name = None, content_category = None,
              num_items = None, order_id = None, contents = None\<rparr>,
           event_id = Some eventId\<rparr>, w1))"

definition customers_try :: "env \<Rightarrow> session \<Rightarrow> customer option \<Rightarrow> world \<Rightarrow> (string + response option) \<times> world" where
  "customers_try e s pl w =
     (case findUnique e (session_id s) of
        Inl err \<Rightarrow> (Inl err, w)
      | Inr metaConnection \<Rightarrow>
          if no_connection metaConnection then (Inr (Some new_Response), w)
          else
            (case pl of
               None \<Rightarrow> (Inr (Some new_Response), w)
             | Some c \<Rightarrow>
                 let capiService = new_CAPIService (pixelId (the metaConnection)) (accessToken (the metaConnection)) None;
                     (now, w1) = Date_now e w;
                     eventId = customer_eventId (c_id c) now;
                     (customEvent, w2) = registration_event e c eventId w1;
                     (r, w3) = sendEvents e capiService [customEvent] w2
                 in (case r of Inl err \<Rightarrow> (Inl err, w3) | Inr capiResponse \<Rightarrow> (Inr None, w3))))"

definition action_customers :: "env \<Rightarrow> string + customer webhook \<Rightarrow> world \<Rightarrow> (string + response) \<times> world" where
  "action_customers e auth w =
     (case auth of
        Inl err \<Rightarrow> (Inl err, w)
      | Inr ctx \<Rightarrow>
          (case session ctx of
             None \<Rightarrow> (Inr new_Response, w)
           | Some s \<Rightarrow> finish (customers_try e s (payload ctx) w)))"

section \<open>An environment for running the model\<close>

text \<open>
  The theorems below hold for every environment. To run the model on concrete payloads one
  environment is fixed: a reader for the ECMAScript date-time format
  \<^verbatim>\<open>YYYY-MM-DDTHH:mm:ss\<close>, an optional \<^verbatim>\<open>.sss\<close>, then \<^verbatim>\<open>Z\<close> or \<^verbatim>\<open>+HH:mm\<close> / \<^verbatim>\<open>-HH:mm\<close> (any
  other text is an invalid date), a digest that only tags what it is given, a clock that
  starts at 5000 ms and advances one millisecond per reading, an endpoint that answers every
  submission with HTTP 400, and a store with one connection.
\<close>

definition days_from_civil :: "int \<Rightarrow> int \<Rightarrow> int \<Rightarrow> int" where
  "days_from_civil y m d =
     (let y' = (if m \<le> 2 then y - 1 else y);
          era = y' div 400;
          yoe = y' - era * 400;
          doy = (153 * (if 2 < m then m - 3 else m + 9) + 2) div 5 + d - 1;
          doe = yoe * 365 + yoe div 4 - yoe div 100 + doy
      in era * 146097 + doe - 719468)"

definition digits_at :: "string \<Rightarrow> nat \<Rightarrow> nat \<Rightarrow> int option" where
  "digits_at s i n =
     (let t = take n (drop i s)
      in if length t = n \<and> list_all is_digit t then Some (int (digits_value t)) else None)"

definition zone_minutes :: "string \<Rightarrow> int option" where
  "zone_minutes z =
     (if z = ''Z'' then Some 0
      else if length z = 6 \<and> take 1 (drop 3 z) = '':'' then
        (case (digits_at z 1 2, digits_at z 4 2) of
           (Some h, Some m) \<Rightarrow>
             if take 1 z = ''+'' then Some (h * 60 + m)
             else if take 1 z = ''-'' then Some (- (h * 60 + m))
             else None
         | _ \<Rightarrow> None)
      else None)"

definition iso_parse :: "string \<Rightarrow> int option" where
  "iso_parse s =
     (case (digits_at s 0 4, digits_at s 5 2, digits_at s 8 2, digits_at s 11 2, digits_at s 14 2, digits_at s 17 2) of
        (Some y, Some mo, Some d, Some h, Some mi, Some sec) \<Rightarrow>
          if take 1 (drop 4 s) = ''-'' \<and> take 1 (drop 7 s) = ''-'' \<and> take 1 (drop 10 s) = ''T''
             \<and> take 1 (drop 13 s) = '':'' \<and> take 1 (drop 16 s) = '':''
             \<and> 1 \<le> mo \<and> mo \<le> 12 \<and> 1 \<le> d \<and> d \<le> 31 \<and> h \<le> 23 \<and> mi \<le> 59 \<and> sec \<le> 59
          then
            (let frac = (take 1 (drop 19 s) = ''.'');
                 ms = (if frac then digits_at s 20 3 else Some 0);
                 zone = zone_minutes (drop (if frac then 23 else 19) s)
             in case (ms, zone) of
                  (Some f, Some off) \<Rightarrow>
                    Some ((((days_from_civil y mo d * 24 + h) * 60 + mi - off) * 60 + sec) * 1000 + f)
                | _ \<Rightarrow> None)
          else None
      | _ \<Rightarrow> None)"

definition example_connection :: meta where
  "example_connection = \<lparr>pixelId = ''1234'', accessToken = ''token''\<rparr>"

definition bad_request :: axios_error where
  "bad_request =
     \<lparr>status = Some 400,
      response_error_message = Some ''Invalid parameter'',
      message = ''Request failed with status code 400''\<rparr>"

definition example_env :: env where
  "example_env =
     \<lparr>sha256hex = (\<lambda>s. ''sha256:'' @ s),
      Date_parse = iso_parse,
      clock = (\<lambda>n. 5000 + int n),
      random36 = ''0.4fzyo82mvyr'',
      axios_post = (\<lambda>req. Rejected bad_request),
      findUnique = (\<lambda>sid. if sid = ''offline_shop'' then Inr (Some example_connection) else Inr None)\<rparr>"

definition w0 :: world where
  "w0 = \<lparr>ticks = 0, sent = []\<rparr>"

definition example_customer :: customer where
  "example_customer =
     \<lparr>c_id = JNum 42, c_email = Some ''A@B.com'', c_phone = None, c_first_name = None,
      c_last_name = None, c_default_address = None, c_created_at = Some ''2024-01-01T00:00:00Z''\<rparr>"

definition example_item :: "jsval \<Rightarrow> jsval \<Rightarrow> int option \<Rightarrow> string \<Rightarrow> line_item" where
  "example_item p v q pr =
     \<lparr>li_id = JUndefined, li_product_id = p, li_variant_id = v, li_quantity = q, li_price = Some pr\<rparr>"

definition example_order :: "line_item list \<Rightarrow> string option \<Rightarrow> string option \<Rightarrow> order" where
  "example_order items tp created =
     \<lparr>o_id = JNum 5, o_name = Some ''#1001'', o_created_at = created, o_total_price = tp,
      o_currency = Some ''EUR'', o_landing_site_ref = None, o_line_items = Some items,
      o_customer = None, o_browser_ip = None, o_client_details = None\<rparr>"

definition example_checkout :: "line_item list option \<Rightarrow> string option \<Rightarrow> checkout" where
  "example_checkout items tp =
     \<lparr>ch_id = JNum 5, ch_total_price = tp, ch_currency = None, ch_landing_site_ref = None,
      ch_line_items = items, ch_customer = None, ch_browser_ip = None, ch_client_details = None\<rparr>"

definition delivery :: "'p option \<Rightarrow> string + 'p webhook" where
  "delivery p =
     Inr \<lparr>shop = ''shop.example'', session = Some \<lparr>session_id = ''offline_shop''\<rparr>,
          topic = ''TOPIC'', payload = p\<rparr>"

section \<open>Statements of the specification\<close>

text \<open>
  The policy for an identity or location field, in the words of the specification: the
  field is omitted when the upstream value is absent or empty, and otherwise holds the
  SHA-256 hex digest of the lower-cased, trimmed value.
\<close>

definition hashed_or_omitted :: "env \<Rightarrow> string option \<Rightarrow> string list option \<Rightarrow> bool" where
  "hashed_or_omitted e raw f =
     (f = (case raw of
             None \<Rightarrow> None
           | Some s \<Rightarrow> if s = [] then None else Some [sha256hex e (trim (toLowerCase s))]))"

text \<open>The customer identifier as text; an absent one, and the number 0, count as no identifier.\<close>

definition raw_id :: "jsval \<Rightarrow> string option" where
  "raw_id v =
     (case v of
        JUndefined \<Rightarrow> None
      | JNull \<Rightarrow> None
      | JNum n \<Rightarrow> if n = 0 then None else Some (num_toString n)
      | JStr s \<Rightarrow> Some s)"

definition identity_hashed :: "env \<Rightarrow> customer option \<Rightarrow> user_data \<Rightarrow> bool" where
  "identity_hashed e cust ud =
     (hashed_or_omitted e (Option.bind cust c_email) (em ud)
      \<and> hashed_or_omitted e (Option.bind cust c_phone) (ph ud)
      \<and> hashed_or_omitted e (Option.bind cust c_first_name) (fn ud)
      \<and> hashed_or_omitted e (Option.bind cust c_last_name) (ln ud)
      \<and> hashed_or_omitted e (Option.bind (Option.bind cust c_default_address) addr_city) (ct ud)
      \<and> hashed_or_omitted e (Option.bind (Option.bind cust c_default_address) addr_province) (st ud)
      \<and> hashed_or_omitted e (Option.bind (Option.bind cust c_default_address) addr_zip) (zp ud)
      \<and> hashed_or_omitted e (Option.bind (Option.bind cust c_default_address) addr_country) (country ud)
      \<and> hashed_or_omitted e (Option.bind cust (\<lambda>c. raw_id (c_id c))) (external_id ud))"

text \<open>
  The invariant of the specification on one event: when its commerce data has both a
  line-item list and an item count, the count is the sum of the quantities in the list.
\<close>

definition items_sum_ok :: "capi_event \<Rightarrow> bool" where
  "items_sum_ok ev =
     (case custom_data ev of
        None \<Rightarrow> True
      | Some cdat \<Rightarrow>
          (case contents cdat of
             None \<Rightarrow> True
           | Some cs \<Rightarrow>
               (case num_items cdat of
                  None \<Rightarrow> True
                | Some n \<Rightarrow> n = sum_list (map ct_quantity cs))))"

text \<open>
  The quantity of an upstream line item in the words of the specification: its quantity, a
  missing one counted as 1.
\<close>

definition counted_quantity :: "line_item \<Rightarrow> int" where
  "counted_quantity item = (case li_quantity item of None \<Rightarrow> 1 | Some q \<Rightarrow> q)"

text \<open>The same with a quantity of 0 counted as 1 as well.\<close>

definition effective_quantity :: "line_item \<Rightarrow> int" where
  "effective_quantity item =
     (case li_quantity item of None \<Rightarrow> 1 | Some q \<Rightarrow> if q = 0 then 1 else q)"

text \<open>
  Content-identifier extraction in the words of the specification: the first truthy one of
  the variant-level, the product-level and the line item's own identifier, as a string; a
  line item with none is dropped.
\<close>

definition first_truthy :: "string option list \<Rightarrow> string option" where
  "first_truthy vs = (case filter truthy vs of [] \<Rightarrow> None | v # _ \<Rightarrow> v)"

definition contentIds_spec :: "line_item list \<Rightarrow> string list" where
  "contentIds_spec items =
     List.map_filter
       (\<lambda>item. first_truthy [opt_toString (li_variant_id item), opt_toString (li_product_id item),
                              opt_toString (li_id item)])
       items"

text \<open>
  The monetary value the code derives from \<open>total_price\<close>: 0 for an absent or empty
  price, and otherwise what \<^verbatim>\<open>parseFloat\<close> reads, which is \<^verbatim>\<open>NaN\<close> for a text without a
  numeric prefix.
\<close>

definition price_value :: "string option \<Rightarrow> jsnumber" where
  "price_value tp = (case tp of None \<Rightarrow> Fin 0 | Some s \<Rightarrow> if s = [] then Fin 0 else parseFloat s)"

text \<open>
  The time of an order or registration event: the clock reading in whole seconds when
  \<open>created_at\<close> is absent or empty, the parsed date in whole seconds when it parses, and
  \<^verbatim>\<open>NaN\<close> when it does not.
\<close>

definition created_seconds :: "env \<Rightarrow> string option \<Rightarrow> int \<Rightarrow> jsnumber" where
  "created_seconds e created now =
     (case created of
        None \<Rightarrow> Fin (of_int (now div 1000))
      | Some s \<Rightarrow>
          if s = [] then Fin (of_int (now div 1000))
          else (case Date_parse e s of None \<Rightarrow> NaN | Some ms \<Rightarrow> Fin (of_int (ms div 1000))))"

text \<open>The parts of a key between its underscores.\<close>

fun underscore_parts :: "string \<Rightarrow> string list" where
  "underscore_parts [] = [[]]"
| "underscore_parts (c # cs) =
     (if c = CHR ''_'' then [] # underscore_parts cs
      else (case underscore_parts cs of [] \<Rightarrow> [[c]] | p # ps \<Rightarrow> (c # p) # ps))"

text \<open>The composition the specification gives for a key, and the one without an event-kind suffix.\<close>

definition dedupKey5 :: "string \<Rightarrow> string \<Rightarrow> string \<Rightarrow> string \<Rightarrow> string \<Rightarrow> string" where
  "dedupKey5 platform kind ident suffix stamp =
     platform @ ''_'' @ kind @ ''_'' @ ident @ ''_'' @ suffix @ ''_'' @ stamp"

definition dedupKey4 :: "string \<Rightarrow> string \<Rightarrow> string \<Rightarrow> string \<Rightarrow> string" where
  "dedupKey4 platform kind ident stamp = platform @ ''_'' @ kind @ ''_'' @ ident @ ''_'' @ stamp"

section \<open>Properties\<close>

subsection \<open>What a call and a delivery leave behind\<close>

lemma sendEvents_world: "snd (sendEvents e svc evs w) = w\<lparr>sent := sent w @ [capi_request svc evs]\<rparr>"
  by (simp add: sendEvents_def Let_def split: axios_result.split)

lemma sendEvents_result:
  "fst (sendEvents e svc evs w) =
     (case axios_post e (capi_request svc evs) of
        Resolved r \<Rightarrow> Inr r
      | Rejected err \<Rightarrow> Inl (''CAPI request failed: '' @ or_lit (response_error_message err) (message err)))"
  by (simp add: sendEvents_def Let_def split: axios_result.split)

lemma Date_now_sent: "sent (snd (Date_now e w)) = sent w"
  by (simp add: Date_now_def)

lemma created_or_now_sent: "sent (snd (created_or_now e c w)) = sent w"
  by (simp add: created_or_now_def Date_now_def split: option.split)

lemma now_seconds_sent: "sent (snd (now_seconds e w)) = sent w"
  by (simp add: now_seconds_def Date_now_def)

lemma eventId_or_sent: "sent (snd (eventId_or e i mk w)) = sent w"
  by (simp add: eventId_or_def Date_now_def)

lemma trackPurchase_event_sent: "sent (snd (trackPurchase_event e ord cust eid cd w)) = sent w"
  by (simp add: trackPurchase_event_def Let_def split_def created_or_now_sent eventId_or_sent)

lemma trackInitiateCheckout_event_sent:
  "sent (snd (trackInitiateCheckout_event e v cur ids n cust eid cd w)) = sent w"
  by (simp add: trackInitiateCheckout_event_def Let_def split_def now_seconds_sent eventId_or_sent)

lemma registration_event_sent: "sent (snd (registration_event e c eid w)) = sent w"
  by (simp add: registration_event_def Let_def split_def created_or_now_sent)

lemma finish_new_Response:
  "(\<And>r. fst rw = Inr (Some r) \<Longrightarrow> r = new_Response) \<Longrightarrow> fst (finish rw) = Inr new_Response"
  by (auto simp: finish_def split: sum.split option.split)

lemma snd_finish: "snd (finish rw) = snd rw"
  by (simp add: finish_def split: sum.split option.split)

lemma orders_try_early: "fst (orders_try e s pl w) = Inr (Some r) \<Longrightarrow> r = new_Response"
  by (auto simp: orders_try_def Let_def split_def split: sum.splits option.splits if_splits)

lemma checkouts_try_early: "fst (checkouts_try e s pl w) = Inr (Some r) \<Longrightarrow> r = new_Response"
  by (auto simp: checkouts_try_def Let_def split_def split: sum.splits option.splits if_splits)

lemma customers_try_early: "fst (customers_try e s pl w) = Inr (Some r) \<Longrightarrow> r = new_Response"
  by (auto simp: customers_try_def Let_def split_def split: sum.splits option.splits if_splits)

lemma action_orders_acknowledges: "fst (action_orders e (Inr ctx) w) = Inr new_Response"
  by (simp add: action_orders_def finish_new_Response orders_try_early split: option.split)

lemma action_checkouts_acknowledges: "fst (action_checkouts e (Inr ctx) w) = Inr new_Response"
  by (simp add: action_checkouts_def finish_new_Response checkouts_try_early split: option.split)

lemma action_customers_acknowledges: "fst (action_customers e (Inr ctx) w) = Inr new_Response"
  by (simp add: action_customers_def finish_new_Response customers_try_early split: option.split)

lemma snd_case_sum_const: "snd (case r of Inl a \<Rightarrow> (f a, w) | Inr b \<Rightarrow> (g b, w)) = w"
  by (cases r) simp_all

lemma orders_try_sends:
  assumes "findUnique e (session_id s) = Inr (Some mc)" and "pixelId mc \<noteq> []"
  shows "sent (snd (orders_try e s (Some ord) w)) =
           sent w @ [capi_request (new_CAPIService (pixelId mc) (accessToken mc) None)
                      [fst (trackPurchase_event e ord (o_customer ord)
                              (Some (order_eventId (o_id ord) (clock e (ticks w))))
                              (Some (orders_clientData ord)) (w\<lparr>ticks := Suc (ticks w)\<rparr>))]]"
  using assms
  by (simp add: orders_try_def no_connection_def trackPurchase_def Let_def split_def
      snd_case_sum_const sendEvents_world trackPurchase_event_sent Date_now_def)

lemma checkouts_try_sends:
  assumes "findUnique e (session_id s) = Inr (Some mc)" and "pixelId mc \<noteq> []"
    and "ch_line_items c = Some (item # items)"
  shows "sent (snd (checkouts_try e s (Some c) w)) =
           sent w @ [capi_request (new_CAPIService (pixelId mc) (accessToken mc) None)
                      [fst (trackInitiateCheckout_event e (parseFloat (or_lit (ch_total_price c) ''0''))
                              (or_lit (ch_currency c) ''USD'') (checkout_contentIds (item # items))
                              (checkout_numItems (item # items)) (ch_customer c)
                              (Some (checkout_eventId (ch_id c) (clock e (ticks w))))
                              (Some (checkouts_clientData c)) (w\<lparr>ticks := Suc (ticks w)\<rparr>))]]"
  using assms
  by (simp add: checkouts_try_def no_connection_def no_valid_checkout_def trackInitiateCheckout_def
      Let_def split_def snd_case_sum_const sendEvents_world trackInitiateCheckout_event_sent Date_now_def)

lemma customers_try_sends:
  assumes "findUnique e (session_id s) = Inr (Some mc)" and "pixelId mc \<noteq> []"
  shows "sent (snd (customers_try e s (Some k) w)) =
           sent w @ [capi_request (new_CAPIService (pixelId mc) (accessToken mc) None)
                      [fst (registration_event e k (customer_eventId (c_id k) (clock e (ticks w)))
                              (w\<lparr>ticks := Suc (ticks w)\<rparr>))]]"
  using assms
  by (simp add: customers_try_def no_connection_def Let_def split_def
      snd_case_sum_const sendEvents_world registration_event_sent Date_now_def)

subsection \<open>Transport\<close>



subsection \<open>Failure isolation\<close>

text \<open>
  Claim C2. For a delivery with a resolved connection and an endpoint that rejects every
  call (a non-success response or a timeout), the transport error is thrown inside the
  \<^verbatim>\<open>try\<close> block of each of the three routes, and the route still returns the empty 200
  response: the failure does not leave the action.
\<close>

theorem C2_transport_failure_swallowed:
  assumes "\<And>req. \<exists>err. axios_post e req = Rejected err"
    and "findUnique e (session_id s) = Inr (Some mc)" and "pixelId mc \<noteq> []"
    and "session ctx_o = Some s" and "payload ctx_o = Some ord"
    and "session ctx_c = Some s" and "payload ctx_c = Some c" and "ch_line_items c = Some (item # items)"
    and "session ctx_k = Some s" and "payload ctx_k = Some k"
  shows "isl (fst (orders_try e s (Some ord) w)) \<and> fst (action_orders e (Inr ctx_o) w) = Inr new_Response
       \<and> isl (fst (checkouts_try e s (Some c) w)) \<and> fst (action_checkouts e (Inr ctx_c) w) = Inr new_Response
       \<and> isl (fst (customers_try e s (Some k) w)) \<and> fst (action_customers e (Inr ctx_k) w) = Inr new_Response"
proof -
  have rej: "isl (fst (sendEvents e svc evs w'))" for svc evs w'
    using assms(1) [of "capi_request svc evs"] by (auto simp: sendEvents_result)
  have nr: "fst (sendEvents e svc evs w') \<noteq> Inr x" for svc evs w' x
    using rej [of svc evs w'] by (cases "fst (sendEvents e svc evs w')") auto
  have o: "isl (fst (orders_try e s (Some ord) w))"
    using assms(2,3) nr
    by (simp add: orders_try_def no_connection_def trackPurchase_def Let_def split_def split: sum.split)
  have c: "isl (fst (checkouts_try e s (Some c) w))"
    using assms(2,3,8) nr
    by (simp add: checkouts_try_def no_connection_def no_valid_checkout_def trackInitiateCheckout_def
        Let_def split_def split: sum.split)
  have k: "isl (fst (customers_try e s (Some k) w))"
    using assms(2,3) nr
    by (simp add: customers_try_def no_connection_def Let_def split_def split: sum.split)
  show ?thesis
    using o c k
    by (simp add: action_orders_acknowledges action_checkouts_acknowledges action_customers_acknowledges)
qed

text \<open>An order delivery against the endpoint that answers 400: one call is made, and the route acknowledges.\<close>

theorem C2_transport_failure_swallowed_witness:
  "(\<forall>req. \<exists>err. axios_post example_env req = Rejected err)
   \<and> findUnique example_env ''offline_shop'' = Inr (Some example_connection)
   \<and> pixelId example_connection \<noteq> []
   \<and> isl (fst (orders_try example_env \<lparr>session_id = ''offline_shop''\<rparr>
                 (Some (example_order [] (Some ''25.00'') None)) w0))
   \<and> action_orders example_env (delivery (Some (example_order [] (Some ''25.00'') None))) w0
       = (Inr new_Response, snd (action_orders example_env (delivery (Some (example_order [] (Some ''25.00'') None))) w0))
   \<and> length (sent (snd (action_orders example_env (delivery (Some (example_order [] (Some ''25.00'') None))) w0))) = 1"
proof -
  let ?s = "\<lparr>session_id = ''offline_shop''\<rparr>"
  let ?ord = "example_order [] (Some ''25.00'') None"
  let ?c = "example_checkout (Some [example_item JNull (JStr ''V1'') None ''1'']) None"
  have rej: "\<exists>err. axios_post example_env req = Rejected err" for req
    by (simp add: example_env_def)
  have conn: "findUnique example_env (session_id ?s) = Inr (Some example_connection)"
    by (simp add: example_env_def)
  have px: "pixelId example_connection \<noteq> []"
    by (simp add: example_connection_def)
  have one: "length (sent (snd (action_orders example_env (delivery (Some ?ord)) w0))) = 1"
    using orders_try_sends [OF conn px, of ?ord w0]
    by (auto simp: action_orders_def delivery_def snd_finish w0_def)
  from C2_transport_failure_swallowed [of example_env ?s example_connection
      "\<lparr>shop = ''shop.example'', session = Some ?s, topic = ''TOPIC'', payload = Some ?ord\<rparr>" ?ord
      "\<lparr>shop = ''shop.example'', session = Some ?s, topic = ''TOPIC'', payload = Some ?c\<rparr>" ?c
      "example_item JNull (JStr ''V1'') None ''1''" "[]"
      "\<lparr>shop = ''shop.example'', session = Some ?s, topic = ''TOPIC'', payload = Some example_customer\<rparr>"
      example_customer w0, OF rej conn px]
  have "isl (fst (orders_try example_env ?s (Some ?ord) w0))
      \<and> fst (action_orders example_env (delivery (Some ?ord)) w0) = Inr new_Response"
    by (simp add: delivery_def example_checkout_def)
  with rej conn px one show ?thesis
    by (simp add: prod_eq_iff)
qed

text \<open>
  Claim C8. When the connection record of the shop is absent, or its \<open>pixelId\<close> is the empty
  string, each route returns the empty 200 response and leaves the world as it was: no
  transport call is made (and no service is built).
\<close>

theorem C8_no_connection_no_transport:
  assumes "findUnique e (session_id s) = Inr mc"
    and "mc = None \<or> (\<exists>m. mc = Some m \<and> pixelId m = [])"
    and "session ctx_o = Some s" and "session ctx_c = Some s" and "session ctx_k = Some s"
  shows "action_orders e (Inr ctx_o) w = (Inr new_Response, w)
       \<and> action_checkouts e (Inr ctx_c) w = (Inr new_Response, w)
       \<and> action_customers e (Inr ctx_k) w = (Inr new_Response, w)"
proof -
  from assms(2) have nc: "no_connection mc"
    by (auto simp: no_connection_def)
  show ?thesis
    using assms(1,3,4,5) nc
    by (simp add: action_orders_def action_checkouts_def action_customers_def finish_def
        orders_try_def checkouts_try_def customers_try_def)
qed

text \<open>A connection whose \<open>pixelId\<close> is empty.\<close>

theorem C8_no_connection_no_transport_witness:
  "findUnique (example_env\<lparr>findUnique := \<lambda>sid. Inr (Some \<lparr>pixelId = [], accessToken = ''token''\<rparr>)\<rparr>) ''offline_shop''
      = Inr (Some \<lparr>pixelId = [], accessToken = ''token''\<rparr>)
   \<and> action_orders (example_env\<lparr>findUnique := \<lambda>sid. Inr (Some \<lparr>pixelId = [], accessToken = ''token''\<rparr>)\<rparr>)
        (delivery (Some (example_order [] (Some ''25.00'') None))) w0 = (Inr new_Response, w0)
   \<and> sent w0 = []"
proof -
  let ?e = "example_env\<lparr>findUnique := \<lambda>sid. Inr (Some \<lparr>pixelId = [], accessToken = ''token''\<rparr>)\<rparr>"
  let ?s = "\<lparr>session_id = ''offline_shop''\<rparr>"
  have conn: "findUnique ?e (session_id ?s) = Inr (Some \<lparr>pixelId = [], accessToken = ''token''\<rparr>)"
    by simp
  have empty: "Some \<lparr>pixelId = [], accessToken = ''token''\<rparr> = None
      \<or> (\<exists>m. Some \<lparr>pixelId = [], accessToken = ''token''\<rparr> = Some m \<and> pixelId m = [])"
    by simp
  from C8_no_connection_no_transport [of ?e ?s _
      "\<lparr>shop = ''shop.example'', session = Some ?s, topic = ''TOPIC'',
        payload = Some (example_order [] (Some ''25.00'') None)\<rparr>"
      "\<lparr>shop = ''shop.example'', session = Some ?s, topic = ''TOPIC'', payload = None\<rparr>"
      "\<lparr>shop = ''shop.example'', session = Some ?s, topic = ''TOPIC'', payload = None\<rparr>" w0,
      OF conn empty]
  show ?thesis
    by (simp add: delivery_def w0_def)
qed

text \<open>
  Claim C10. A checkout delivery with a resolved connection whose payload is present but
  has no \<open>line_items\<close>, or an empty list, makes no transport call and is acknowledged.
\<close>

theorem C10_checkout_without_line_items:
  assumes "session ctx = Some s" and "findUnique e (session_id s) = Inr (Some m)" and "pixelId m \<noteq> []"
    and "payload ctx = Some c" and "ch_line_items c = None \<or> ch_line_items c = Some []"
  shows "action_checkouts e (Inr ctx) w = (Inr new_Response, w)"
proof -
  from assms(4,5) have "no_valid_checkout (payload ctx)"
    by (auto simp: no_valid_checkout_def)
  then show ?thesis
    using assms(1,2)
    by (simp add: action_checkouts_def finish_def checkouts_try_def)
qed

text \<open>A checkout with an empty list of line items.\<close>

theorem C10_checkout_without_line_items_witness:
  "findUnique example_env ''offline_shop'' = Inr (Some example_connection)
   \<and> pixelId example_connection \<noteq> []
   \<and> ch_line_items (example_checkout (Some []) (Some ''25.00'')) = Some []
   \<and> action_checkouts example_env (delivery (Some (example_checkout (Some []) (Some ''25.00'')))) w0
       = (Inr new_Response, w0)
   \<and> sent w0 = []"
proof -
  let ?s = "\<lparr>session_id = ''offline_shop''\<rparr>"
  let ?c = "example_checkout (Some []) (Some ''25.00'')"
  have conn: "findUnique example_env (session_id ?s) = Inr (Some example_connection)"
    by (simp add: example_env_def)
  have px: "pixelId example_connection \<noteq> []"
    by (simp add: example_connection_def)
  have li: "ch_line_items ?c = None \<or> ch_line_items ?c = Some []"
    by (simp add: example_checkout_def)
  from C10_checkout_without_line_items [of
      "\<lparr>shop = ''shop.example'', session = Some ?s, topic = ''TOPIC'', payload = Some ?c\<rparr>"
      ?s example_env example_connection ?c w0, OF _ conn px _ li]
  have "action_checkouts example_env (delivery (Some ?c)) w0 = (Inr new_Response, w0)"
    by (simp add: delivery_def)
  with conn px show ?thesis
    by (simp add: example_checkout_def w0_def)
qed

subsection \<open>Identity fields\<close>

lemma hashed_spec: "hashed_or_omitted e raw (hashed e raw)"
  by (simp add: hashed_or_omitted_def hashed_def hashPII_def split: option.split)

lemma dec_nat_not_Nil: "dec_nat n \<noteq> []"
  by (subst dec_nat.simps) simp

lemma num_toString_not_Nil: "num_toString i \<noteq> []"
  by (simp add: num_toString_def dec_nat_not_Nil)

lemma hashed_id_spec: "hashed_or_omitted e (raw_id v) (hashed_id e v)"
  by (cases v) (simp_all add: hashed_or_omitted_def hashed_id_def hashPII_def raw_id_def num_toString_not_Nil)

lemma createUserData_identity: "identity_hashed e cust (createUserData e cust a b c d)"
proof (cases cust)
  case None
  then show ?thesis
    by (simp add: identity_hashed_def createUserData_def hashed_spec) (simp add: hashed_or_omitted_def)
next
  case (Some k)
  then show ?thesis
    by (simp add: identity_hashed_def createUserData_def hashed_spec hashed_id_spec)
qed

lemma registration_identity: "identity_hashed e (Some k) (user_data (fst (registration_event e k i w)))"
  by (simp add: identity_hashed_def registration_event_def Let_def split_def hashed_spec hashed_id_spec)

lemma user_data_trackPurchase:
  "user_data (fst (trackPurchase_event e ord cust eid cd w)) = client_user_data e cust cd"
  by (simp add: trackPurchase_event_def Let_def split_def)

lemma user_data_trackInitiateCheckout:
  "user_data (fst (trackInitiateCheckout_event e v cur ids n cust eid cd w)) = client_user_data e cust cd"
  by (simp add: trackInitiateCheckout_event_def Let_def split_def)

lemma user_data_trackAddToCart:
  "user_data (fst (trackAddToCart_event e p v q pr cur cust eid cd w)) = client_user_data e cust cd"
  by (simp add: trackAddToCart_event_def Let_def split_def)

lemma user_data_trackPageView:
  "user_data (fst (trackPageView_event e page cust eid cd w)) = client_user_data e cust cd"
  by (simp add: trackPageView_event_def Let_def split_def)

lemma user_data_trackViewContent:
  "user_data (fst (trackViewContent_event e p nm cat v cur cust eid cd w)) = client_user_data e cust cd"
  by (simp add: trackViewContent_event_def Let_def split_def)

text \<open>
  Claim C1. In the event built by each of \<open>trackPurchase\<close>, \<open>trackInitiateCheckout\<close>,
  \<open>trackAddToCart\<close>, \<open>trackPageView\<close>, \<open>trackViewContent\<close> and the customer-registration
  route, each of \<open>em\<close>, \<open>ph\<close>, \<open>fn\<close>, \<open>ln\<close>, \<open>ct\<close>, \<open>st\<close>, \<open>zp\<close>, \<open>country\<close> and
  \<open>external_id\<close> is omitted when its upstream value is absent or empty and is otherwise the
  SHA-256 hex digest of the lower-cased, trimmed upstream value.
\<close>

theorem C1_identity_fields_hashed:
  "identity_hashed e cust (user_data (fst (trackPurchase_event e ord cust eid cd w)))
   \<and> identity_hashed e cust (user_data (fst (trackInitiateCheckout_event e v cur ids n cust eid cd w)))
   \<and> identity_hashed e cust (user_data (fst (trackAddToCart_event e p vid q pr cur cust eid cd w)))
   \<and> identity_hashed e cust (user_data (fst (trackPageView_event e page cust eid cd w)))
   \<and> identity_hashed e cust (user_data (fst (trackViewContent_event e p nm cat v cur cust eid cd w)))
   \<and> identity_hashed e (Some k) (user_data (fst (registration_event e k i w)))"
  by (simp add: user_data_trackPurchase user_data_trackInitiateCheckout user_data_trackAddToCart
      user_data_trackPageView user_data_trackViewContent client_user_data_def
      createUserData_identity registration_identity)

text \<open>The customer \<^verbatim>\<open>{id: 42, email: "A@B.com"}\<close>: the e-mail is digested in its normal form, the absent phone is omitted.\<close>

lemma normalised_example: "trim (toLowerCase ''A@B.com'') = ''a@b.com''"
  by code_simp

theorem C1_identity_fields_hashed_witness:
  "em (user_data (fst (registration_event example_env example_customer ''k'' w0)))
     = Some [sha256hex example_env ''a@b.com'']
   \<and> ph (user_data (fst (registration_event example_env example_customer ''k'' w0))) = None
   \<and> em (user_data (fst (trackPurchase_event example_env (example_order [] None None)
                            (Some example_customer) (Some ''k'') None w0)))
     = Some [sha256hex example_env ''a@b.com'']"
  using C1_identity_fields_hashed [of example_env "Some example_customer" "example_order [] None None"
      "Some ''k''" None w0 NaN "[]" "[]" 0 "[]" "[]" 0 NaN "[]" "[]" "[]" example_customer "''k''"]
  by (simp add: identity_hashed_def hashed_or_omitted_def example_customer_def normalised_example)

subsection \<open>Item counts\<close>

lemma foldl_plus_sum_list: "foldl (\<lambda>sum x. sum + f x) a xs = (a::int) + sum_list (map f xs)"
  by (induction xs arbitrary: a) simp_all

lemma quantity_or_1_effective: "quantity_or_1 (li_quantity item) = effective_quantity item"
  by (simp add: quantity_or_1_def effective_quantity_def)

lemma purchase_quantities:
  "map (ct_quantity \<circ> purchase_content) items = map effective_quantity items"
  by (induction items) (simp_all add: purchase_content_def quantity_or_1_effective)

lemma purchase_items_sum_ok: "items_sum_ok (fst (trackPurchase_event e ord cust eid cd w))"
  by (simp add: items_sum_ok_def trackPurchase_event_def Let_def split_def foldl_plus_sum_list)

lemma others_items_sum_ok:
  "items_sum_ok (fst (trackAddToCart_event e p vid q pr cur cust eid cd w))"
  "items_sum_ok (fst (trackInitiateCheckout_event e v cur ids n cust eid cd w))"
  "items_sum_ok (fst (trackPageView_event e page cust eid cd w))"
  "items_sum_ok (fst (trackViewContent_event e p nm cat v cur cust eid cd w))"
  "items_sum_ok (fst (registration_event e k i w))"
  by (simp_all add: items_sum_ok_def trackAddToCart_event_def trackInitiateCheckout_event_def
      trackPageView_event_def trackViewContent_event_def registration_event_def Let_def split_def)

lemma purchase_num_items:
  "Option.bind (custom_data (fst (trackPurchase_event e ord cust eid cd w))) num_items =
     Some (sum_list (map ct_quantity (purchase_contents ord)))"
  by (simp add: trackPurchase_event_def Let_def split_def foldl_plus_sum_list)

lemma purchase_contents_quantities:
  "Option.bind (custom_data (fst (trackPurchase_event e ord cust eid cd w))) contents =
     Some (purchase_contents ord)"
  by (simp add: trackPurchase_event_def Let_def split_def)

lemma checkout_numItems_sum: "checkout_numItems items = sum_list (map effective_quantity items)"
  by (simp add: checkout_numItems_def foldl_plus_sum_list quantity_or_1_effective)

lemma checkout_num_items:
  "Option.bind (custom_data (fst (trackInitiateCheckout_event e v cur ids n cust eid cd w))) num_items = Some n"
  by (simp add: trackInitiateCheckout_event_def Let_def split_def)

text \<open>
  Claim C7, as the code has it. Every event the pipeline builds satisfies the invariant:
  where both a line-item list and \<open>num_items\<close> are present (purchase and add-to-cart
  events), \<open>num_items\<close> is the sum of the quantities in the list. For an order each upstream
  line item enters the list, and the sum, with its quantity, a missing quantity and a
  quantity of 0 both counted as 1; an order without line items has the count 0. The count
  that a checkout delivery passes on, and that its event carries, is formed the same way.
\<close>

theorem C7_num_items_is_sum:
  "items_sum_ok (fst (trackPurchase_event e ord cust eid cd w))
   \<and> items_sum_ok (fst (trackAddToCart_event e p vid q pr cur cust eid cd w))
   \<and> items_sum_ok (fst (trackInitiateCheckout_event e v cur ids n cust eid cd w))
   \<and> items_sum_ok (fst (trackPageView_event e page cust eid cd w))
   \<and> items_sum_ok (fst (trackViewContent_event e p nm cat v cur cust eid cd w))
   \<and> items_sum_ok (fst (registration_event e k i w))
   \<and> (o_line_items ord = Some items \<longrightarrow>
        map_option (map ct_quantity)
          (Option.bind (custom_data (fst (trackPurchase_event e ord cust eid cd w))) contents)
          = Some (map effective_quantity items)
        \<and> Option.bind (custom_data (fst (trackPurchase_event e ord cust eid cd w))) num_items
          = Some (sum_list (map effective_quantity items)))
   \<and> (o_line_items ord = None \<longrightarrow>
        Option.bind (custom_data (fst (trackPurchase_event e ord cust eid cd w))) num_items = Some 0)
   \<and> checkout_numItems items = sum_list (map effective_quantity items)
   \<and> Option.bind (custom_data (fst (trackInitiateCheckout_event e v cur ids (checkout_numItems items)
                                       cust eid cd w))) num_items
       = Some (sum_list (map effective_quantity items))"
proof -
  have some: "map_option (map ct_quantity)
          (Option.bind (custom_data (fst (trackPurchase_event e ord cust eid cd w))) contents)
          = Some (map effective_quantity items)
        \<and> Option.bind (custom_data (fst (trackPurchase_event e ord cust eid cd w))) num_items
          = Some (sum_list (map effective_quantity items))"
    if "o_line_items ord = Some items"
    using that
    by (simp add: purchase_num_items purchase_contents_quantities purchase_contents_def
        purchase_quantities)
  have none: "Option.bind (custom_data (fst (trackPurchase_event e ord cust eid cd w))) num_items = Some 0"
    if "o_line_items ord = None"
    using that by (simp add: purchase_num_items purchase_contents_def)
  have co: "Option.bind (custom_data (fst (trackInitiateCheckout_event e v cur ids (checkout_numItems items)
                                       cust eid cd w))) num_items
       = Some (sum_list (map effective_quantity items))"
    by (simp only: checkout_num_items checkout_numItems_sum)
  from some none co show ?thesis
    by (simp add: purchase_items_sum_ok others_items_sum_ok checkout_numItems_sum)
qed

text \<open>
  Quantities 2 and 1 give 3, for the order and for the checkout; a line item without a
  quantity adds 1.
\<close>

theorem C7_num_items_is_sum_witness:
  "o_line_items (example_order [example_item JNull (JStr ''V1'') (Some 2) ''10.00'',
                                example_item JNull (JStr ''V2'') (Some 1) ''5.00''] (Some ''25.00'') None)
     = Some [example_item JNull (JStr ''V1'') (Some 2) ''10.00'',
             example_item JNull (JStr ''V2'') (Some 1) ''5.00'']
   \<and> Option.bind (custom_data (fst (trackPurchase_event example_env
         (example_order [example_item JNull (JStr ''V1'') (Some 2) ''10.00'',
                         example_item JNull (JStr ''V2'') (Some 1) ''5.00''] (Some ''25.00'') None)
         None (Some ''k'') None w0))) num_items = Some 3
   \<and> checkout_numItems [example_item JNull (JStr ''V1'') (Some 2) ''10.00'',
                         example_item JNull (JStr ''V2'') (Some 1) ''5.00''] = 3
   \<and> checkout_numItems [example_item JNull (JStr ''V1'') None ''10.00''] = 1"
proof -
  let ?items = "[example_item JNull (JStr ''V1'') (Some 2) ''10.00'',
                 example_item JNull (JStr ''V2'') (Some 1) ''5.00'']"
  let ?ord = "example_order ?items (Some ''25.00'') None"
  have li: "o_line_items ?ord = Some ?items"
    by (simp add: example_order_def)
  from C7_num_items_is_sum [where e = example_env and cust = None and eid = "Some ''k''"
      and cd = None and w = w0 and items = ?items and ord = ?ord]
  have two: "o_line_items ?ord = Some ?items \<longrightarrow>
        map_option (map ct_quantity)
          (Option.bind (custom_data (fst (trackPurchase_event example_env ?ord None (Some ''k'') None w0))) contents)
          = Some (map effective_quantity ?items)
        \<and> Option.bind (custom_data (fst (trackPurchase_event example_env ?ord None (Some ''k'') None w0))) num_items
          = Some (sum_list (map effective_quantity ?items))"
    and co: "checkout_numItems ?items = sum_list (map effective_quantity ?items)"
    by blast+
  from C7_num_items_is_sum [where items = "[example_item JNull (JStr ''V1'') None ''10.00'']"]
  have one: "checkout_numItems [example_item JNull (JStr ''V1'') None ''10.00'']
      = sum_list (map effective_quantity [example_item JNull (JStr ''V1'') None ''10.00''])"
    by blast
  from two li co one show ?thesis
    by (simp add: effective_quantity_def example_item_def)
qed

text \<open>
  Against the claim as stated: an order, and a checkout, whose one line item has the
  quantity 0 is counted as one item, where the quantities, a missing one counted as 1,
  sum to 0. The event's own list carries the quantity 1 for that item.
\<close>

theorem C7_zero_quantity_counterexample:
  "Option.bind (custom_data (fst (trackPurchase_event example_env
       (example_order [example_item JNull (JStr ''V1'') (Some 0) ''10.00''] None None)
       None (Some ''k'') None w0))) num_items = Some 1
   \<and> checkout_numItems [example_item JNull (JStr ''V1'') (Some 0) ''10.00''] = 1
   \<and> sum_list (map counted_quantity [example_item JNull (JStr ''V1'') (Some 0) ''10.00'']) = 0"
  by (simp add: purchase_num_items purchase_contents_def example_order_def example_item_def
      purchase_content_def quantity_or_1_def checkout_numItems_def counted_quantity_def)

subsection \<open>Content identifiers\<close>

lemma first_truthy3:
  "first_truthy [a, b, c] = (if truthy (or_else (or_else a b) c) then or_else (or_else a b) c else None)"
  by (simp add: first_truthy_def or_else_def)

lemma checkout_contentIds_spec: "checkout_contentIds items = contentIds_spec items"
proof (induction items)
  case Nil
  show ?case by (simp add: checkout_contentIds_def contentIds_spec_def map_filter_simps)
next
  case (Cons item items)
  have tail: "map the (filter truthy (map checkout_content_id items)) = contentIds_spec items"
    using Cons.IH by (simp add: checkout_contentIds_def)
  show ?case
  proof (cases "truthy (checkout_content_id item)")
    case True
    then obtain s where s: "checkout_content_id item = Some s"
      by (cases "checkout_content_id item") auto
    with True tail show ?thesis
      by (simp add: checkout_contentIds_def contentIds_spec_def map_filter_simps first_truthy3
          checkout_content_id_def [symmetric])
  next
    case False
    with tail show ?thesis
      by (simp add: checkout_contentIds_def contentIds_spec_def map_filter_simps first_truthy3
          checkout_content_id_def [symmetric])
  qed
qed

lemma purchase_content_ids:
  "Option.bind (custom_data (fst (trackPurchase_event e ord cust eid cd w))) content_ids =
     Some (map ct_id (purchase_contents ord))"
  by (simp add: trackPurchase_event_def Let_def split_def)

lemma purchase_id_without_product:
  "\<not> truthy (opt_toString (li_product_id item)) \<Longrightarrow>
     ct_id (purchase_content item) = (case opt_toString (li_variant_id item) of None \<Rightarrow> [] | Some s \<Rightarrow> s)"
  by (simp add: purchase_content_def or_else_def or_lit_def split: option.split)

text \<open>
  Claim C3, as the code has it. For a checkout the identifiers are extracted as the
  specification says: variant first, then product, then the line item's own identifier, as
  strings, falsy results dropped; they are the \<open>content_ids\<close> of the event. For an order
  every line item contributes one entry and none is dropped; a line item without a
  product-level identifier contributes its variant-level identifier as a string, and the
  empty string when it has neither.
\<close>

theorem C3_content_identifiers:
  "checkout_contentIds items = contentIds_spec items
   \<and> Option.bind (custom_data (fst (trackInitiateCheckout_event e v cur (checkout_contentIds items)
                                       n cust eid cd w))) content_ids = Some (contentIds_spec items)
   \<and> (o_line_items ord = Some items \<longrightarrow>
        (\<exists>ids. Option.bind (custom_data (fst (trackPurchase_event e ord cust eid cd w))) content_ids = Some ids
           \<and> length ids = length items
           \<and> (\<forall>j < length items. \<not> truthy (opt_toString (li_product_id (items ! j))) \<longrightarrow>
                 ids ! j = (case opt_toString (li_variant_id (items ! j)) of None \<Rightarrow> [] | Some s \<Rightarrow> s))))"
proof -
  have co: "Option.bind (custom_data (fst (trackInitiateCheckout_event e v cur (checkout_contentIds items)
                                       n cust eid cd w))) content_ids = Some (contentIds_spec items)"
    by (simp add: trackInitiateCheckout_event_def Let_def split_def checkout_contentIds_spec)
  have po: "\<exists>ids. Option.bind (custom_data (fst (trackPurchase_event e ord cust eid cd w))) content_ids = Some ids
           \<and> length ids = length items
           \<and> (\<forall>j < length items. \<not> truthy (opt_toString (li_product_id (items ! j))) \<longrightarrow>
                 ids ! j = (case opt_toString (li_variant_id (items ! j)) of None \<Rightarrow> [] | Some s \<Rightarrow> s))"
    if "o_line_items ord = Some items"
    using that
    by (intro exI [of _ "map ct_id (purchase_contents ord)"])
       (simp add: purchase_content_ids purchase_contents_def purchase_id_without_product)
  from co po show ?thesis
    by (simp add: checkout_contentIds_spec)
qed

text \<open>
  The order of the specification's example, line items with the variants \<open>V1\<close> and \<open>V2\<close>
  alone: the purchase event and the checkout both carry \<open>V1\<close>, \<open>V2\<close>.
\<close>

theorem C3_content_identifiers_witness:
  "o_line_items (example_order [example_item JUndefined (JStr ''V1'') (Some 2) ''10.00'',
                                example_item JUndefined (JStr ''V2'') (Some 1) ''5.00''] None None)
     = Some [example_item JUndefined (JStr ''V1'') (Some 2) ''10.00'',
             example_item JUndefined (JStr ''V2'') (Some 1) ''5.00'']
   \<and> Option.bind (custom_data (fst (trackPurchase_event example_env
         (example_order [example_item JUndefined (JStr ''V1'') (Some 2) ''10.00'',
                         example_item JUndefined (JStr ''V2'') (Some 1) ''5.00''] None None)
         None (Some ''k'') None w0))) content_ids = Some [''V1'', ''V2'']
   \<and> checkout_contentIds [example_item JUndefined (JStr ''V1'') (Some 2) ''10.00'',
                           example_item JUndefined (JStr ''V2'') (Some 1) ''5.00''] = [''V1'', ''V2'']"
proof -
  let ?items = "[example_item JUndefined (JStr ''V1'') (Some 2) ''10.00'',
                 example_item JUndefined (JStr ''V2'') (Some 1) ''5.00'']"
  let ?ord = "example_order ?items None None"
  have li: "o_line_items ?ord = Some ?items"
    by (simp add: example_order_def)
  have spec: "contentIds_spec ?items = [''V1'', ''V2'']"
    by (simp add: contentIds_spec_def map_filter_simps first_truthy_def example_item_def)
  from C3_content_identifiers [where items = ?items and ord = ?ord and e = example_env and cust = None
      and eid = "Some ''k''" and cd = None and w = w0 and v = NaN and cur = "[]" and n = 0]
  have co: "checkout_contentIds ?items = contentIds_spec ?items"
    and po: "o_line_items ?ord = Some ?items \<longrightarrow>
      (\<exists>ids. Option.bind (custom_data (fst (trackPurchase_event example_env ?ord None
                  (Some ''k'') None w0))) content_ids = Some ids
         \<and> length ids = length ?items
         \<and> (\<forall>j < length ?items. \<not> truthy (opt_toString (li_product_id (?items ! j))) \<longrightarrow>
               ids ! j = (case opt_toString (li_variant_id (?items ! j)) of None \<Rightarrow> [] | Some s \<Rightarrow> s)))"
    by blast+
  from po li obtain ids where ids: "Option.bind (custom_data (fst (trackPurchase_event example_env ?ord None
        (Some ''k'') None w0))) content_ids = Some ids" "length ids = 2"
      and nth: "\<forall>j < length ?items. \<not> truthy (opt_toString (li_product_id (?items ! j))) \<longrightarrow>
               ids ! j = (case opt_toString (li_variant_id (?items ! j)) of None \<Rightarrow> [] | Some s \<Rightarrow> s)"
    by auto
  from nth have "ids ! 0 = ''V1''" "ids ! 1 = ''V2''"
    by (simp_all add: example_item_def)
  note ids = ids this
  from ids(2,3,4) have "ids = [''V1'', ''V2'']"
    by (cases ids; cases "tl ids") auto
  with ids(1) li co spec show ?thesis by simp
qed

text \<open>
  Against the claim as stated: an order line item with the product 7 and the variant 9
  contributes the product identifier, and a line item with no identifier at all stays in
  \<open>content_ids\<close> as the empty string.
\<close>

theorem C3_order_prefers_product_counterexample:
  "Option.bind (custom_data (fst (trackPurchase_event example_env
       (example_order [example_item (JNum 7) (JNum 9) (Some 1) ''10.00'',
                       example_item JNull JNull (Some 1) ''1.00''] None None)
       None (Some ''k'') None w0))) content_ids = Some [''7'', []]"
  by (simp add: purchase_content_ids purchase_contents_def example_order_def example_item_def
      purchase_content_def or_else_def or_lit_def num_toString_def dec_nat.simps digit_char_def)

subsection \<open>Monetary value\<close>

lemma parseFloat_zero: "parseFloat ''0'' = Fin 0"
  by (simp add: parseFloat_def is_ws_def is_digit_def digits_value_def pow10_def exponent_part_def)

lemma parseFloat_abc: "parseFloat ''abc'' = NaN"
  by (simp add: parseFloat_def is_ws_def is_digit_def)

lemma parseFloat_no_numeral:
  assumes "\<not> is_ws ch" and "\<not> is_digit ch"
    and "ch \<noteq> CHR ''+''" and "ch \<noteq> CHR ''-''" and "ch \<noteq> CHR ''.''" and "ch \<noteq> CHR ''I''"
  shows "parseFloat (ch # rest) = NaN"
  using assms by (simp add: parseFloat_def Let_def)

lemma parseFloat_or_0: "parseFloat (or_lit tp ''0'') = price_value tp"
  by (simp add: or_lit_def price_value_def parseFloat_zero split: option.split)

lemma purchase_value:
  "Option.bind (custom_data (fst (trackPurchase_event e ord cust eid cd w))) cd_value =
     Some (price_value (o_total_price ord))"
  by (simp add: trackPurchase_event_def Let_def split_def parseFloat_or_0)

lemma checkout_value:
  "Option.bind (custom_data (fst (trackInitiateCheckout_event e v cur ids n cust eid cd w))) cd_value = Some v"
  by (simp add: trackInitiateCheckout_event_def Let_def split_def)

text \<open>
  Claim C4, as the code has it. For a delivery with a resolved connection, the order route
  and the checkout route submit exactly one event, so the build does not fail, and its
  \<open>value\<close> is \<open>price_value\<close> of the upstream \<open>total_price\<close>: the number 0 when the price is
  absent or empty, and \<^verbatim>\<open>NaN\<close>, not 0, when it is present and \<^verbatim>\<open>parseFloat\<close> cannot read it,
  as for any text that begins with a character other than white space, a digit, a sign, a
  dot or the \<open>I\<close> of \<open>Infinity\<close>.
\<close>

theorem C4_value_of_total_price:
  assumes "findUnique e (session_id s) = Inr (Some mc)" and "pixelId mc \<noteq> []"
    and "ch_line_items c = Some (item # items)"
  shows "(\<exists>req ev. sent (snd (orders_try e s (Some ord) w)) = sent w @ [req] \<and> data (body req) = [ev]
            \<and> Option.bind (custom_data ev) cd_value = Some (price_value (o_total_price ord)))
       \<and> (\<exists>req ev. sent (snd (checkouts_try e s (Some c) w)) = sent w @ [req] \<and> data (body req) = [ev]
            \<and> Option.bind (custom_data ev) cd_value = Some (price_value (ch_total_price c)))
       \<and> price_value None = Fin 0 \<and> price_value (Some []) = Fin 0
       \<and> (\<forall>t. t \<noteq> [] \<and> parseFloat t = NaN \<longrightarrow> price_value (Some t) = NaN)
       \<and> (\<forall>ch rest. \<not> is_ws ch \<and> \<not> is_digit ch \<and> ch \<noteq> CHR ''+'' \<and> ch \<noteq> CHR ''-''
              \<and> ch \<noteq> CHR ''.'' \<and> ch \<noteq> CHR ''I'' \<longrightarrow> price_value (Some (ch # rest)) = NaN)"
proof -
  let ?svc = "new_CAPIService (pixelId mc) (accessToken mc) None"
  let ?oev = "fst (trackPurchase_event e ord (o_customer ord)
                    (Some (order_eventId (o_id ord) (clock e (ticks w))))
                    (Some (orders_clientData ord)) (w\<lparr>ticks := Suc (ticks w)\<rparr>))"
  let ?cev = "fst (trackInitiateCheckout_event e (parseFloat (or_lit (ch_total_price c) ''0''))
                    (or_lit (ch_currency c) ''USD'') (checkout_contentIds (item # items))
                    (checkout_numItems (item # items)) (ch_customer c)
                    (Some (checkout_eventId (ch_id c) (clock e (ticks w))))
                    (Some (checkouts_clientData c)) (w\<lparr>ticks := Suc (ticks w)\<rparr>))"
  have "sent (snd (orders_try e s (Some ord) w)) = sent w @ [capi_request ?svc [?oev]]"
    by (rule orders_try_sends [OF assms(1,2)])
  moreover have "data (body (capi_request ?svc [?oev])) = [?oev]"
    by (simp add: capi_request_def)
  moreover have "Option.bind (custom_data ?oev) cd_value = Some (price_value (o_total_price ord))"
    by (rule purchase_value)
  ultimately have o: "\<exists>req ev. sent (snd (orders_try e s (Some ord) w)) = sent w @ [req]
            \<and> data (body req) = [ev]
            \<and> Option.bind (custom_data ev) cd_value = Some (price_value (o_total_price ord))"
    by blast
  have "sent (snd (checkouts_try e s (Some c) w)) = sent w @ [capi_request ?svc [?cev]]"
    by (rule checkouts_try_sends [OF assms])
  moreover have "data (body (capi_request ?svc [?cev])) = [?cev]"
    by (simp add: capi_request_def)
  moreover have "Option.bind (custom_data ?cev) cd_value = Some (price_value (ch_total_price c))"
    by (simp only: checkout_value parseFloat_or_0)
  ultimately have c: "\<exists>req ev. sent (snd (checkouts_try e s (Some c) w)) = sent w @ [req]
            \<and> data (body req) = [ev]
            \<and> Option.bind (custom_data ev) cd_value = Some (price_value (ch_total_price c))"
    by blast
  from o c show ?thesis
    by (simp add: price_value_def parseFloat_no_numeral)
qed

text \<open>An order without a price: the submitted event has the value 0.\<close>

theorem C4_value_of_total_price_witness:
  "findUnique example_env ''offline_shop'' = Inr (Some example_connection)
   \<and> pixelId example_connection \<noteq> []
   \<and> (\<exists>req ev. sent (snd (orders_try example_env \<lparr>session_id = ''offline_shop''\<rparr>
                              (Some (example_order [] None None)) w0)) = [req]
         \<and> data (body req) = [ev] \<and> Option.bind (custom_data ev) cd_value = Some (Fin 0))
   \<and> price_value (Some ''abc'') = NaN"
proof -
  let ?s = "\<lparr>session_id = ''offline_shop''\<rparr>"
  let ?item = "example_item JNull (JStr ''V1'') None ''1''"
  have conn: "findUnique example_env (session_id ?s) = Inr (Some example_connection)"
    by (simp add: example_env_def)
  have px: "pixelId example_connection \<noteq> []"
    by (simp add: example_connection_def)
  have li: "ch_line_items (example_checkout (Some [?item]) None) = Some (?item # [])"
    by (simp add: example_checkout_def)
  from C4_value_of_total_price [OF conn px li, of "example_order [] None None" w0]
  have "(\<exists>req ev. sent (snd (orders_try example_env ?s (Some (example_order [] None None)) w0)) = sent w0 @ [req]
            \<and> data (body req) = [ev]
            \<and> Option.bind (custom_data ev) cd_value = Some (price_value (o_total_price (example_order [] None None))))"
    and "\<forall>t. t \<noteq> [] \<and> parseFloat t = NaN \<longrightarrow> price_value (Some t) = NaN"
    by blast+
  with conn px show ?thesis
    by (simp add: w0_def example_order_def price_value_def parseFloat_abc)
qed

text \<open>
  Against the claim as stated: an order whose \<open>total_price\<close> is \<open>abc\<close> gives an event whose
  value is \<^verbatim>\<open>NaN\<close>, not the number 0.
\<close>

theorem C4_unparsable_price_counterexample:
  "Option.bind (custom_data (fst (trackPurchase_event example_env (example_order [] (Some ''abc'') None)
       None (Some ''k'') None w0))) cd_value = Some NaN
   \<and> NaN \<noteq> Fin 0"
  by (simp add: purchase_value price_value_def example_order_def parseFloat_abc)

subsection \<open>Event time\<close>

lemma floor_int_1000: "\<lfloor>(of_int ms :: rat) / 1000\<rfloor> = ms div 1000"
proof -
  have "\<lfloor>(of_int ms :: rat) / of_int 1000\<rfloor> = ms div 1000"
    by (rule floor_divide_of_int_eq)
  then show ?thesis by simp
qed

lemma created_or_now_seconds:
  "floor_div_1000 (fst (created_or_now e created w)) = created_seconds e created (clock e (ticks w))"
  by (simp add: created_or_now_def created_seconds_def getTime_def Date_now_def floor_int_1000
      split: option.split)

lemma now_seconds_value: "fst (now_seconds e w) = Fin (of_int (clock e (ticks w) div 1000))"
  by (simp add: now_seconds_def Date_now_def floor_int_1000)

lemma purchase_event_time:
  "event_time (fst (trackPurchase_event e ord cust eid cd w)) =
     created_seconds e (o_created_at ord) (clock e (ticks w))"
  by (simp add: trackPurchase_event_def Let_def split_def created_or_now_seconds)

lemma registration_event_time:
  "event_time (fst (registration_event e k i w)) = created_seconds e (c_created_at k) (clock e (ticks w))"
  by (simp add: registration_event_def Let_def split_def created_or_now_seconds)

lemma other_event_times:
  "event_time (fst (trackInitiateCheckout_event e v cur ids n cust eid cd w)) = Fin (of_int (clock e (ticks w) div 1000))"
  "event_time (fst (trackAddToCart_event e p vid q pr cur cust eid cd w)) = Fin (of_int (clock e (ticks w) div 1000))"
  "event_time (fst (trackPageView_event e page cust eid cd w)) = Fin (of_int (clock e (ticks w) div 1000))"
  "event_time (fst (trackViewContent_event e p nm cat v cur cust eid cd w)) = Fin (of_int (clock e (ticks w) div 1000))"
  by (simp_all add: trackInitiateCheckout_event_def trackAddToCart_event_def trackPageView_event_def
      trackViewContent_event_def Let_def split_def now_seconds_value)

text \<open>
  Claim C5, as the code has it. For a purchase and for a registration event, \<open>event_time\<close>
  is the upstream \<open>created_at\<close> in whole seconds when it is present and parses, and the
  reading of the clock at build time in whole seconds when it is absent or empty; when it
  is present and does not parse, \<open>event_time\<close> is \<^verbatim>\<open>NaN\<close>. Every other event
  (\<open>InitiateCheckout\<close>, \<open>AddToCart\<close>, \<open>PageView\<close>, \<open>ViewContent\<close>) takes the reading of the
  clock, whatever the upstream record holds.
\<close>

theorem C5_event_time:
  "event_time (fst (trackPurchase_event e ord cust eid cd w))
     = created_seconds e (o_created_at ord) (clock e (ticks w))
   \<and> event_time (fst (registration_event e k i w))
     = created_seconds e (c_created_at k) (clock e (ticks w))
   \<and> event_time (fst (trackInitiateCheckout_event e v cur ids n cust eid cd w))
     = Fin (of_int (clock e (ticks w) div 1000))
   \<and> event_time (fst (trackAddToCart_event e p vid q pr cur cust eid cd w))
     = Fin (of_int (clock e (ticks w) div 1000))
   \<and> event_time (fst (trackPageView_event e page cust eid cd w))
     = Fin (of_int (clock e (ticks w) div 1000))
   \<and> event_time (fst (trackViewContent_event e p nm cat v cur cust eid cd w))
     = Fin (of_int (clock e (ticks w) div 1000))
   \<and> created_seconds e None now = Fin (of_int (now div 1000))
   \<and> created_seconds e (Some []) now = Fin (of_int (now div 1000))
   \<and> (\<forall>t ms. t \<noteq> [] \<and> Date_parse e t = Some ms \<longrightarrow> created_seconds e (Some t) now = Fin (of_int (ms div 1000)))
   \<and> (\<forall>t. t \<noteq> [] \<and> Date_parse e t = None \<longrightarrow> created_seconds e (Some t) now = NaN)"
  by (simp add: purchase_event_time registration_event_time other_event_times created_seconds_def)

lemma iso_parse_example: "iso_parse ''2024-01-01T00:00:00Z'' = Some 1704067200000"
  by code_simp

lemma iso_parse_abc: "iso_parse ''abc'' = None"
  by code_simp

text \<open>The customer created at \<open>2024-01-01T00:00:00Z\<close>: the registration event is timed 1704067200.\<close>

theorem C5_event_time_witness:
  "Date_parse example_env ''2024-01-01T00:00:00Z'' = Some 1704067200000
   \<and> event_time (fst (registration_event example_env example_customer ''k'' w0)) = Fin 1704067200
   \<and> event_time (fst (trackPurchase_event example_env (example_order [] None None) None (Some ''k'') None w0))
       = Fin 5"
proof -
  have p: "Date_parse example_env ''2024-01-01T00:00:00Z'' = Some 1704067200000"
    by (simp add: example_env_def iso_parse_example)
  from C5_event_time [where e = example_env and k = example_customer and i = "''k''" and w = w0
      and ord = "example_order [] None None" and cust = None and eid = "Some ''k''" and cd = None
      and now = 5000]
  have "event_time (fst (registration_event example_env example_customer ''k'' w0))
          = created_seconds example_env (c_created_at example_customer) (clock example_env (ticks w0))"
    and "event_time (fst (trackPurchase_event example_env (example_order [] None None) None (Some ''k'') None w0))
          = created_seconds example_env (o_created_at (example_order [] None None)) (clock example_env (ticks w0))"
    and "created_seconds example_env None 5000 = Fin (of_int (5000 div 1000))"
    and "\<forall>t ms. t \<noteq> [] \<and> Date_parse example_env t = Some ms
           \<longrightarrow> created_seconds example_env (Some t) 5000 = Fin (of_int (ms div 1000))"
    by blast+
  with p show ?thesis
    by (simp add: example_customer_def example_order_def w0_def example_env_def)
qed

text \<open>
  Against the claim as stated: an order whose \<open>created_at\<close> is \<open>abc\<close> gives an event timed
  \<^verbatim>\<open>NaN\<close>, where the clock reads 5000 ms and the claim asks for 5.
\<close>

theorem C5_unparsable_created_at_counterexample:
  "event_time (fst (trackPurchase_event example_env (example_order [] None (Some ''abc''))
       None (Some ''k'') None w0)) = NaN
   \<and> clock example_env (ticks w0) = 5000
   \<and> NaN \<noteq> Fin 5"
  by (simp add: purchase_event_time created_seconds_def example_order_def example_env_def
      iso_parse_abc w0_def)

subsection \<open>Deduplication keys\<close>

lemma eventId_or_given: "key \<noteq> [] \<Longrightarrow> fst (eventId_or e (Some key) mk w) = key"
  by (simp add: eventId_or_def or_lit_def)

lemma purchase_event_id:
  "key \<noteq> [] \<Longrightarrow> event_id (fst (trackPurchase_event e ord cust (Some key) cd w)) = Some key"
  by (simp add: trackPurchase_event_def Let_def split_def eventId_or_given)

lemma checkout_event_id:
  "key \<noteq> [] \<Longrightarrow> event_id (fst (trackInitiateCheckout_event e v cur ids n cust (Some key) cd w)) = Some key"
  by (simp add: trackInitiateCheckout_event_def Let_def split_def eventId_or_given)

lemma registration_event_id: "event_id (fst (registration_event e k key w)) = Some key"
  by (simp add: registration_event_def Let_def split_def)

lemma order_eventId_parts:
  "order_eventId i t = dedupKey4 ''shopify'' ''order'' (template i) (num_toString t)"
  by (simp add: order_eventId_def dedupKey4_def)

lemma checkout_eventId_parts:
  "checkout_eventId i t = dedupKey4 ''shopify'' ''checkout'' (template i) (num_toString t)"
  by (simp add: checkout_eventId_def dedupKey4_def)

lemma customer_eventId_parts:
  "customer_eventId i t = dedupKey5 ''shopify'' ''customer'' (template i) ''signup'' (num_toString t)"
  by (simp add: customer_eventId_def dedupKey5_def)

lemma keys_differ:
  "dedupKey4 ''shopify'' ''order'' i t \<noteq> dedupKey4 ''shopify'' ''checkout'' i' t'"
  "dedupKey4 ''shopify'' ''order'' i t \<noteq> dedupKey5 ''shopify'' ''customer'' i' ''signup'' t'"
  "dedupKey4 ''shopify'' ''checkout'' i t \<noteq> dedupKey5 ''shopify'' ''customer'' i' ''signup'' t'"
  by (simp_all add: dedupKey4_def dedupKey5_def)

text \<open>
  Claim C6, as the code has it. For a delivery with a resolved connection the submitted
  event carries the key the route generates: \<open>shopify_order_{id}_{timestamp}\<close> for a
  purchase and \<open>shopify_checkout_{id}_{timestamp}\<close> for a checkout, four parts with no
  event-kind suffix, and the five-part \<open>shopify_customer_{id}_signup_{timestamp}\<close> for a
  registration. Keys of different event kinds differ, whatever the identifiers and the
  timestamps are, so two builds for the same identifier at different kinds never share a key.
\<close>

theorem C6_dedup_keys:
  assumes "findUnique e (session_id s) = Inr (Some mc)" and "pixelId mc \<noteq> []"
    and "ch_line_items c = Some (item # items)"
  shows "(\<exists>req ev. sent (snd (orders_try e s (Some ord) w)) = sent w @ [req] \<and> data (body req) = [ev]
            \<and> event_id ev = Some (dedupKey4 ''shopify'' ''order'' (template (o_id ord))
                                     (num_toString (clock e (ticks w)))))
       \<and> (\<exists>req ev. sent (snd (checkouts_try e s (Some c) w)) = sent w @ [req] \<and> data (body req) = [ev]
            \<and> event_id ev = Some (dedupKey4 ''shopify'' ''checkout'' (template (ch_id c))
                                     (num_toString (clock e (ticks w)))))
       \<and> (\<exists>req ev. sent (snd (customers_try e s (Some k) w)) = sent w @ [req] \<and> data (body req) = [ev]
            \<and> event_id ev = Some (dedupKey5 ''shopify'' ''customer'' (template (c_id k)) ''signup''
                                     (num_toString (clock e (ticks w)))))
       \<and> dedupKey4 ''shopify'' ''order'' i t \<noteq> dedupKey4 ''shopify'' ''checkout'' i' t'
       \<and> dedupKey4 ''shopify'' ''order'' i t \<noteq> dedupKey5 ''shopify'' ''customer'' i' ''signup'' t'
       \<and> dedupKey4 ''shopify'' ''checkout'' i t \<noteq> dedupKey5 ''shopify'' ''customer'' i' ''signup'' t'"
proof -
  let ?svc = "new_CAPIService (pixelId mc) (accessToken mc) None"
  let ?oev = "fst (trackPurchase_event e ord (o_customer ord)
                    (Some (order_eventId (o_id ord) (clock e (ticks w))))
                    (Some (orders_clientData ord)) (w\<lparr>ticks := Suc (ticks w)\<rparr>))"
  let ?cev = "fst (trackInitiateCheckout_event e (parseFloat (or_lit (ch_total_price c) ''0''))
                    (or_lit (ch_currency c) ''USD'') (checkout_contentIds (item # items))
                    (checkout_numItems (item # items)) (ch_customer c)
                    (Some (checkout_eventId (ch_id c) (clock e (ticks w))))
                    (Some (checkouts_clientData c)) (w\<lparr>ticks := Suc (ticks w)\<rparr>))"
  let ?kev = "fst (registration_event e k (customer_eventId (c_id k) (clock e (ticks w)))
                    (w\<lparr>ticks := Suc (ticks w)\<rparr>))"
  have body: "data (body (capi_request ?svc [ev])) = [ev]" for ev
    by (simp add: capi_request_def)
  have "sent (snd (orders_try e s (Some ord) w)) = sent w @ [capi_request ?svc [?oev]]"
    by (rule orders_try_sends [OF assms(1,2)])
  moreover have "event_id ?oev = Some (dedupKey4 ''shopify'' ''order'' (template (o_id ord))
                                     (num_toString (clock e (ticks w))))"
    by (simp add: purchase_event_id order_eventId_parts dedupKey4_def)
  ultimately have o: "\<exists>req ev. sent (snd (orders_try e s (Some ord) w)) = sent w @ [req]
            \<and> data (body req) = [ev]
            \<and> event_id ev = Some (dedupKey4 ''shopify'' ''order'' (template (o_id ord))
                                     (num_toString (clock e (ticks w))))"
    using body by blast
  have "sent (snd (checkouts_try e s (Some c) w)) = sent w @ [capi_request ?svc [?cev]]"
    by (rule checkouts_try_sends [OF assms])
  moreover have "event_id ?cev = Some (dedupKey4 ''shopify'' ''checkout'' (template (ch_id c))
                                     (num_toString (clock e (ticks w))))"
    by (simp add: checkout_event_id checkout_eventId_parts dedupKey4_def)
  ultimately have c: "\<exists>req ev. sent (snd (checkouts_try e s (Some c) w)) = sent w @ [req]
            \<and> data (body req) = [ev]
            \<and> event_id ev = Some (dedupKey4 ''shopify'' ''checkout'' (template (ch_id c))
                                     (num_toString (clock e (ticks w))))"
    using body by blast
  have "sent (snd (customers_try e s (Some k) w)) = sent w @ [capi_request ?svc [?kev]]"
    by (rule customers_try_sends [OF assms(1,2)])
  moreover have "event_id ?kev = Some (dedupKey5 ''shopify'' ''customer'' (template (c_id k)) ''signup''
                                     (num_toString (clock e (ticks w))))"
    by (simp add: registration_event_id customer_eventId_parts)
  ultimately have k: "\<exists>req ev. sent (snd (customers_try e s (Some k) w)) = sent w @ [req]
            \<and> data (body req) = [ev]
            \<and> event_id ev = Some (dedupKey5 ''shopify'' ''customer'' (template (c_id k)) ''signup''
                                     (num_toString (clock e (ticks w))))"
    using body by blast
  from o c k show ?thesis
    by (simp add: keys_differ)
qed

lemma num_toString_5000: "num_toString 5000 = ''5000''"
  by (simp add: num_toString_def dec_nat.simps digit_char_def)

lemma num_toString_42: "num_toString 42 = ''42''"
  by (simp add: num_toString_def dec_nat.simps digit_char_def)

lemma num_toString_5: "num_toString 5 = ''5''"
  by (simp add: num_toString_def dec_nat.simps digit_char_def)

text \<open>The registration of customer 42 when the clock reads 5000 ms.\<close>

theorem C6_dedup_keys_witness:
  "findUnique example_env ''offline_shop'' = Inr (Some example_connection)
   \<and> pixelId example_connection \<noteq> []
   \<and> (\<exists>req ev. sent (snd (customers_try example_env \<lparr>session_id = ''offline_shop''\<rparr>
                              (Some example_customer) w0)) = [req]
         \<and> data (body req) = [ev] \<and> event_id ev = Some ''shopify_customer_42_signup_5000'')"
proof -
  let ?s = "\<lparr>session_id = ''offline_shop''\<rparr>"
  let ?item = "example_item JNull (JStr ''V1'') None ''1''"
  have conn: "findUnique example_env (session_id ?s) = Inr (Some example_connection)"
    by (simp add: example_env_def)
  have px: "pixelId example_connection \<noteq> []"
    by (simp add: example_connection_def)
  have li: "ch_line_items (example_checkout (Some [?item]) None) = Some (?item # [])"
    by (simp add: example_checkout_def)
  from C6_dedup_keys [OF conn px li, where k = example_customer and w = w0]
  have "\<exists>req ev. sent (snd (customers_try example_env ?s (Some example_customer) w0)) = sent w0 @ [req]
            \<and> data (body req) = [ev]
            \<and> event_id ev = Some (dedupKey5 ''shopify'' ''customer'' (template (c_id example_customer)) ''signup''
                                     (num_toString (clock example_env (ticks w0))))"
    by blast
  with conn px show ?thesis
    by (simp add: w0_def example_customer_def example_env_def dedupKey5_def num_toString_42 num_toString_5000)
qed

text \<open>
  Against the claim as stated: the key of a purchase, and that of a checkout, has four
  parts; there is no event-kind suffix between the identifier and the timestamp.
\<close>

theorem C6_four_part_key_counterexample:
  "underscore_parts (order_eventId (JNum 5) 5000) = [''shopify'', ''order'', ''5'', ''5000'']
   \<and> underscore_parts (checkout_eventId (JNum 5) 5000) = [''shopify'', ''checkout'', ''5'', ''5000'']"
  by (simp add: order_eventId_def checkout_eventId_def num_toString_5 num_toString_5000)

end
